theory Spec2Isabelle
  imports Main "HOL-Library.Word"
begin

section \<open>The STUN binding probe of nat-test (main.go)\<close>

text \<open>
  The program opens a UDP socket (testUDP) or one TCP connection per server (testTCP),
  sends one STUN binding request to every server of a list and records, per server,
  a STUNResponse. Everything it calls outside main.go (the net package, the pion/stun
  codec, the clock, the logger) is a parameter of the model: the record \<open>env\<close> holds
  what each call returns, and the calls the program makes are recorded, in order and
  with their arguments, in a trace of events.
\<close>

subsection \<open>Data\<close>

type_synonym byte = "8 word"

text \<open>A Go error value; nil is \<open>None\<close> of \<open>error option\<close>.\<close>

datatype error = Err string

text \<open>stun.MessageClass and the fields of stun.Message that main.go reads.\<close>

datatype MessageClass =
  ClassRequest | ClassIndication | ClassSuccessResponse | ClassErrorResponse

record Message =
  Class :: MessageClass
  TransactionID :: "byte list"
  Attributes :: "byte list"

text \<open>
  Modelled from the spec: the struct STUNResponse and its constructor NewSTUNResponse
  are declared outside main.go. The spec's ProbeOutcome has the queried endpoint always
  present and the three other fields present only once assigned; main.go assigns
  STUNServerAddr, BindResponseAddr and TimeToBindResponse (a duration in nanoseconds).
\<close>

record STUNResponse =
  STUNServerURL :: string
  STUNServerAddr :: "string option"
  BindResponseAddr :: "string option"
  TimeToBindResponse :: "int option"

definition NewSTUNResponse :: "string \<Rightarrow> STUNResponse" where
  "NewSTUNResponse url =
     \<lparr>STUNServerURL = url, STUNServerAddr = None,
      BindResponseAddr = None, TimeToBindResponse = None\<rparr>"

datatype level = WarnLevel | ErrorLevel

text \<open>
  The calls the program makes, with their arguments. A TCP connection is named by the
  index of the loop iteration that dialed it. \<open>Log\<close> carries the level, the
  stun\_server\_url field of the logger (when it has one) and the message or format string.
  The error that \<open>conn.Close()\<close> returns goes to utils.UncheckedError only, so a close
  is an event without a result.
\<close>

text \<open>
  Modelled from the spec: logSTUNResults is declared outside main.go. The spec has the
  ordered batch handed to the reporting sink after the loop, nothing filtered; the event
  \<open>LogSTUNResults\<close> records the call and the batch it is given.
\<close>

datatype event =
    ListenPacket string string
  | SetDeadline int
  | UDPClose
  | StunBuild
  | MarshalBinary
  | ResolveUDPAddr string string
  | WriteTo "byte list" string
  | ReadFrom nat
  | StunDecode "byte list"
  | GetFrom
  | Dial nat string string
  | TCPClose nat
  | SetReadDeadline nat int
  | ResolveTCPAddr string string
  | TCPWrite nat "byte list"
  | TCPRead nat nat
  | Log level "string option" string
  | LogSTUNResults "STUNResponse list"

text \<open>
  What the world answers. The per-server calls are indexed by the loop iteration
  (0 for the first server), so that the same call may answer differently each time.
  A Go call returning \<open>(n, err)\<close> returns a pair here.
  \<^item> \<open>readFrom i\<close> is \<open>(datagram, source address, err)\<close> and \<open>tcpRead i\<close> is
    \<open>(bytes, err)\<close>: the bytes that arrive are copied into the caller's buffer, as
    many as fit, and their number is the count \<open>n\<close> that Go returns; main.go assigns
    it to \<open>n\<close> and never reads it again;
  \<^item> \<open>bindStart i\<close> and \<open>bindEnd i\<close> are the clock readings of \<open>time.Now()\<close> before the
    send and of \<open>time.Since\<close> after the checks, in nanoseconds.
\<close>

record env =
  listenPacket :: "error option"
  timeNow :: int
  setDeadline :: "int \<Rightarrow> error option"
  build :: "error + Message"
  marshalBinary :: "Message \<Rightarrow> error + byte list"
  decode :: "byte list \<Rightarrow> error + Message"
  getFrom :: "Message \<Rightarrow> error + string"
  bindStart :: "nat \<Rightarrow> int"
  bindEnd :: "nat \<Rightarrow> int"
  resolveUDPAddr :: "nat \<Rightarrow> string \<Rightarrow> string \<Rightarrow> error + string"
  writeTo :: "nat \<Rightarrow> byte list \<Rightarrow> string \<Rightarrow> int \<times> error option"
  readFrom :: "nat \<Rightarrow> byte list \<times> string \<times> error option"
  dial :: "nat \<Rightarrow> string \<Rightarrow> string \<Rightarrow> error option"
  deadlineNow :: "nat \<Rightarrow> int"
  setReadDeadline :: "nat \<Rightarrow> int \<Rightarrow> error option"
  resolveTCPAddr :: "nat \<Rightarrow> string \<Rightarrow> string \<Rightarrow> error + string"
  tcpWrite :: "nat \<Rightarrow> byte list \<Rightarrow> int \<times> error option"
  tcpRead :: "nat \<Rightarrow> byte list \<times> error option"

text \<open>
  The state of one run: the slice stunResponses, the trace, and the stack of deferred
  closes of testTCP (the connection dialed last is on top).
\<close>

record state =
  stunResponses :: "STUNResponse list"
  trace :: "event list"
  deferred :: "nat list"

definition init :: state where
  "init = \<lparr>stunResponses = [], trace = [], deferred = []\<rparr>"

definition emit :: "event \<Rightarrow> state \<Rightarrow> state" where
  "emit e s = s\<lparr>trace := trace s @ [e]\<rparr>"

definition logAt :: "level \<Rightarrow> string \<Rightarrow> string \<Rightarrow> state \<Rightarrow> state" where
  "logAt l url msg s = emit (Log l (Some url) msg) s"

text \<open>
  \<open>stunResponses = append(stunResponses, stunResponse)\<close>: the slice holds a pointer
  to the new record, which the rest of the iteration writes through. The pointer is the
  index of the record in the slice.
\<close>

definition appendResponse :: "STUNResponse \<Rightarrow> state \<Rightarrow> state" where
  "appendResponse r s = s\<lparr>stunResponses := stunResponses s @ [r]\<rparr>"

definition updateResponse :: "nat \<Rightarrow> (STUNResponse \<Rightarrow> STUNResponse) \<Rightarrow> state \<Rightarrow> state" where
  "updateResponse k f s =
     s\<lparr>stunResponses := (stunResponses s)[k := f (stunResponses s ! k)]\<rparr>"

text \<open>
  \<open>rawResponse := make([]byte, 2000)\<close> and a receive into it: the bytes that arrived
  overwrite the front of the buffer, as many as fit.
\<close>

definition bufferSize :: nat where
  "bufferSize = 2000"

definition makeBuffer :: "nat \<Rightarrow> byte list" where
  "makeBuffer n = replicate n 0"

definition receiveInto :: "byte list \<Rightarrow> byte list \<Rightarrow> byte list" where
  "receiveInto buf dat = take (length buf) dat @ drop (length dat) buf"

subsection \<open>The response check shared by both loops\<close>

text \<open>
  Lines 104-131 of testUDP and, word for word, lines 213-240 of testTCP: decode the whole
  buffer, switch on the class, extract the address, compare the transaction IDs, and only
  then write BindResponseAddr and TimeToBindResponse through the pointer \<open>k\<close>.
\<close>

definition checkResponse ::
  "env \<Rightarrow> Message \<Rightarrow> nat \<Rightarrow> string \<Rightarrow> nat \<Rightarrow> int \<Rightarrow> byte list \<Rightarrow> state \<Rightarrow> state" where
  "checkResponse e bindRequest i url k start rawResponse s =
     (let s = emit (StunDecode rawResponse) s in
      case decode e rawResponse of
        Inl err \<Rightarrow> logAt ErrorLevel url ''Error decoding STUN message'' s
      | Inr response \<Rightarrow>
          (case Class response of
             ClassSuccessResponse \<Rightarrow>
               (let s = emit GetFrom s in
                case getFrom e response of
                  Inl err \<Rightarrow> logAt ErrorLevel url ''Error extracting address from STUN message'' s
                | Inr bindResponseAddr \<Rightarrow>
                    if TransactionID bindRequest \<noteq> TransactionID response
                    then logAt ErrorLevel url ''Transaction ID mismatch (expected %s, got %s)'' s
                    else updateResponse k
                           (\<lambda>r. r\<lparr>BindResponseAddr := Some bindResponseAddr,
                                  TimeToBindResponse := Some (bindEnd e i - start)\<rparr>) s)
           | _ \<Rightarrow> logAt ErrorLevel url ''Unexpected STUN response received'' s))"

subsection \<open>testUDP\<close>

text \<open>One iteration of the loop of testUDP (lines 71-132); every \<open>continue\<close> ends it.\<close>

definition udpIter :: "env \<Rightarrow> Message \<Rightarrow> byte list \<Rightarrow> nat \<Rightarrow> string \<Rightarrow> state \<Rightarrow> state" where
  "udpIter e bindRequest bindRequestRaw i url s =
     (let k = length (stunResponses s);
          s = appendResponse (NewSTUNResponse url) s;
          s = emit (ResolveUDPAddr ''udp4'' url) s in
      case resolveUDPAddr e i ''udp4'' url of
        Inl err \<Rightarrow> logAt ErrorLevel url ''Error resolving URL to a UDP address'' s
      | Inr udpAddr \<Rightarrow>
          (let s = updateResponse k (\<lambda>r. r\<lparr>STUNServerAddr := Some udpAddr\<rparr>) s;
               start = bindStart e i;
               s = emit (WriteTo bindRequestRaw udpAddr) s in
           case writeTo e i bindRequestRaw udpAddr of
             (n, Some err) \<Rightarrow> logAt ErrorLevel url ''Error writing to conn'' s
           | (n, None) \<Rightarrow>
               if n \<noteq> int (length bindRequestRaw)
               then logAt ErrorLevel url ''Only wrote %d/%d of bind request'' s
               else
                 (let rawResponse = makeBuffer bufferSize;
                      s = emit (ReadFrom (length rawResponse)) s in
                  case readFrom e i of
                    (dat, src, Some err) \<Rightarrow> logAt ErrorLevel url ''Error reading from conn'' s
                  | (dat, src, None) \<Rightarrow>
                      checkResponse e bindRequest i url k start
                        (receiveInto rawResponse dat) s)))"

fun udpLoop ::
  "env \<Rightarrow> Message \<Rightarrow> byte list \<Rightarrow> nat \<Rightarrow> string list \<Rightarrow> state \<Rightarrow> state" where
  "udpLoop e bindRequest bindRequestRaw i [] s = s"
| "udpLoop e bindRequest bindRequestRaw i (url # urls) s =
     udpLoop e bindRequest bindRequestRaw (Suc i) urls
       (udpIter e bindRequest bindRequestRaw i url s)"

text \<open>
  testUDP (lines 39-136), with the server list as an argument. The deferred close of the
  socket runs at every return after the listen succeeded.
\<close>

definition testUDP :: "env \<Rightarrow> int \<Rightarrow> string list \<Rightarrow> error option \<times> state" where
  "testUDP e timeout urls =
     (let s = emit (ListenPacket ''udp'' ''0.0.0.0:0'') init in
      case listenPacket e of
        Some err \<Rightarrow>
          (Some err,
           emit (Log WarnLevel None
             ''Failed to listen over UDP on a port; UDP traffic may be blocked'') s)
      | None \<Rightarrow>
          (let s = (if timeout > 0 then emit (SetDeadline (timeNow e + timeout)) s else s) in
           case (if timeout > 0 then setDeadline e (timeNow e + timeout) else None) of
             Some err \<Rightarrow> (Some err, emit UDPClose s)
           | None \<Rightarrow>
               (let s = emit StunBuild s in
                case build e of
                  Inl err \<Rightarrow> (Some err, emit UDPClose s)
                | Inr bindRequest \<Rightarrow>
                    (let s = emit MarshalBinary s in
                     case marshalBinary e bindRequest of
                       Inl err \<Rightarrow> (Some err, emit UDPClose s)
                     | Inr bindRequestRaw \<Rightarrow>
                         (let s = udpLoop e bindRequest bindRequestRaw 0 urls s;
                              s = emit (LogSTUNResults (stunResponses s)) s
                          in (None, emit UDPClose s))))))"

subsection \<open>testTCP\<close>

text \<open>
  One iteration of the loop of testTCP (lines 162-241). The record is created and
  appended only after the dial and the read deadline; the close of the connection is
  pushed on the stack of deferred calls.
\<close>

definition tcpIter ::
  "env \<Rightarrow> int \<Rightarrow> Message \<Rightarrow> byte list \<Rightarrow> nat \<Rightarrow> string \<Rightarrow> state \<Rightarrow> state" where
  "tcpIter e timeout bindRequest bindRequestRaw i url s =
     (let s = emit (Dial i ''tcp'' url) s in
      case dial e i ''tcp'' url of
        Some err \<Rightarrow> logAt ErrorLevel url ''Error dialing STUN server via tcp'' s
      | None \<Rightarrow>
          (let s = s\<lparr>deferred := i # deferred s\<rparr>;
               s = (if timeout > 0
                    then emit (SetReadDeadline i (deadlineNow e i + timeout)) s else s) in
           case (if timeout > 0
                 then setReadDeadline e i (deadlineNow e i + timeout) else None) of
             Some err \<Rightarrow>
               logAt ErrorLevel url ''Error setting read deadline on TCP connection'' s
           | None \<Rightarrow>
               (let k = length (stunResponses s);
                    s = appendResponse (NewSTUNResponse url) s;
                    s = emit (ResolveTCPAddr ''tcp'' url) s in
                case resolveTCPAddr e i ''tcp'' url of
                  Inl err \<Rightarrow> logAt ErrorLevel url ''Error resolving URL to a TCP address'' s
                | Inr tcpAddr \<Rightarrow>
                    (let s = updateResponse k (\<lambda>r. r\<lparr>STUNServerAddr := Some tcpAddr\<rparr>) s;
                         start = bindStart e i;
                         s = emit (TCPWrite i bindRequestRaw) s in
                     case tcpWrite e i bindRequestRaw of
                       (n, Some err) \<Rightarrow> logAt ErrorLevel url ''Error writing to conn'' s
                     | (n, None) \<Rightarrow>
                         if n \<noteq> int (length bindRequestRaw)
                         then logAt ErrorLevel url ''Only wrote %d/%d of bind request'' s
                         else
                           (let rawResponse = makeBuffer bufferSize;
                                s = emit (TCPRead i (length rawResponse)) s in
                            case tcpRead e i of
                              (dat, Some err) \<Rightarrow>
                                logAt ErrorLevel url ''Error reading from conn'' s
                            | (dat, None) \<Rightarrow>
                                checkResponse e bindRequest i url k start
                                  (receiveInto rawResponse dat) s)))))"

fun tcpLoop ::
  "env \<Rightarrow> int \<Rightarrow> Message \<Rightarrow> byte list \<Rightarrow> nat \<Rightarrow> string list \<Rightarrow> state \<Rightarrow> state" where
  "tcpLoop e timeout bindRequest bindRequestRaw i [] s = s"
| "tcpLoop e timeout bindRequest bindRequestRaw i (url # urls) s =
     tcpLoop e timeout bindRequest bindRequestRaw (Suc i) urls
       (tcpIter e timeout bindRequest bindRequestRaw i url s)"

text \<open>The deferred closes run when testTCP returns, the last one registered first.\<close>

fun runDeferred :: "nat list \<Rightarrow> state \<Rightarrow> state" where
  "runDeferred [] s = s"
| "runDeferred (c # cs) s = runDeferred cs (emit (TCPClose c) s)"

definition testTCP :: "env \<Rightarrow> int \<Rightarrow> string list \<Rightarrow> error option \<times> state" where
  "testTCP e timeout urls =
     (let s = emit StunBuild init in
      case build e of
        Inl err \<Rightarrow> (Some err, s)
      | Inr bindRequest \<Rightarrow>
          (let s = emit MarshalBinary s in
           case marshalBinary e bindRequest of
             Inl err \<Rightarrow> (Some err, s)
           | Inr bindRequestRaw \<Rightarrow>
               (let s = tcpLoop e timeout bindRequest bindRequestRaw 0 urls s;
                    s = emit (LogSTUNResults (stunResponses s)) s
                in (None, runDeferred (deferred s) (s\<lparr>deferred := []\<rparr>)))))"

subsection \<open>main\<close>

definition stunServerURLsToTestUDP :: "string list" where
  "stunServerURLsToTestUDP =
     [''stun.l.google.com:3478'', ''stun.l.google.com:19302'', ''stun.sipgate.net:3478'',
      ''stun.sipgate.net:3479'', ''global.stun.twilio.com:3478'', ''turn.viam.com:443'']"

definition stunServerURLsToTestTCP :: "string list" where
  "stunServerURLsToTestTCP = [''turn.viam.com:443'']"

text \<open>
  main (lines 13-23): the timeout is 10 seconds; an error of either run is a panic.
  The two runs see the world one after the other: \<open>eu\<close> during the UDP run and
  \<open>et\<close> during the TCP run. The result is the panic value, if any.
\<close>

definition mainTimeout :: int where
  "mainTimeout = 10 * 1000000000"

definition main :: "env \<Rightarrow> env \<Rightarrow> error option" where
  "main eu et =
     (case fst (testUDP eu mainTimeout stunServerURLsToTestUDP) of
        Some err \<Rightarrow> Some err
      | None \<Rightarrow>
          (case fst (testTCP et mainTimeout stunServerURLsToTestTCP) of
             Some err \<Rightarrow> Some err
           | None \<Rightarrow> None))"

section \<open>What one run does, iteration by iteration\<close>

text \<open>
  The definitions of this section take nothing from outside the model: they read off the
  model what the prelude of a run yields (the request and its bytes), what one iteration
  adds to the trace, to the slice and to the deferred calls, and which events are of a kind.
\<close>

text \<open>The binding request and its serialisation, when both calls succeed.\<close>

definition request :: "env \<Rightarrow> (Message \<times> byte list) option" where
  "request e =
     (case build e of
        Inl err \<Rightarrow> None
      | Inr bindRequest \<Rightarrow>
          (case marshalBinary e bindRequest of
             Inl err \<Rightarrow> None
           | Inr bindRequestRaw \<Rightarrow> Some (bindRequest, bindRequestRaw)))"

text \<open>The prelude of testUDP: listen, arm the deadline, build and serialise the request.\<close>

definition udpSetup :: "env \<Rightarrow> int \<Rightarrow> (Message \<times> byte list) option" where
  "udpSetup e timeout =
     (case listenPacket e of
        Some err \<Rightarrow> None
      | None \<Rightarrow>
          (case (if timeout > 0 then setDeadline e (timeNow e + timeout) else None) of
             Some err \<Rightarrow> None
           | None \<Rightarrow> request e))"

text \<open>What the iteration for server \<open>i\<close> adds, read off a run of it from the empty state.\<close>

definition udpEvents :: "env \<Rightarrow> Message \<Rightarrow> byte list \<Rightarrow> nat \<Rightarrow> string \<Rightarrow> event list" where
  "udpEvents e req raw i url = trace (udpIter e req raw i url init)"

definition udpOutcome :: "env \<Rightarrow> Message \<Rightarrow> byte list \<Rightarrow> nat \<Rightarrow> string \<Rightarrow> STUNResponse" where
  "udpOutcome e req raw i url = last (stunResponses (udpIter e req raw i url init))"

definition tcpEvents ::
  "env \<Rightarrow> int \<Rightarrow> Message \<Rightarrow> byte list \<Rightarrow> nat \<Rightarrow> string \<Rightarrow> event list" where
  "tcpEvents e t req raw i url = trace (tcpIter e t req raw i url init)"

definition tcpOutcomes ::
  "env \<Rightarrow> int \<Rightarrow> Message \<Rightarrow> byte list \<Rightarrow> nat \<Rightarrow> string \<Rightarrow> STUNResponse list" where
  "tcpOutcomes e t req raw i url = stunResponses (tcpIter e t req raw i url init)"

definition tcpOutcome ::
  "env \<Rightarrow> int \<Rightarrow> Message \<Rightarrow> byte list \<Rightarrow> nat \<Rightarrow> string \<Rightarrow> STUNResponse" where
  "tcpOutcome e t req raw i url = last (stunResponses (tcpIter e t req raw i url init))"

definition tcpDeferred ::
  "env \<Rightarrow> int \<Rightarrow> Message \<Rightarrow> byte list \<Rightarrow> nat \<Rightarrow> string \<Rightarrow> nat list" where
  "tcpDeferred e t req raw i url = deferred (tcpIter e t req raw i url init)"

definition checkEvents :: "env \<Rightarrow> Message \<Rightarrow> string \<Rightarrow> byte list \<Rightarrow> event list" where
  "checkEvents e req url buf = trace (checkResponse e req 0 url 0 0 buf init)"

text \<open>
  The receive buffer handed to the decoder by the iteration for server \<open>i\<close>, when the
  iteration gets that far: the address resolved, the whole request was written and the
  receive returned no error.
\<close>

definition udpReceived :: "env \<Rightarrow> byte list \<Rightarrow> nat \<Rightarrow> string \<Rightarrow> byte list option" where
  "udpReceived e raw i url =
     (case resolveUDPAddr e i ''udp4'' url of
        Inl err \<Rightarrow> None
      | Inr udpAddr \<Rightarrow>
          (case writeTo e i raw udpAddr of
             (n, Some err) \<Rightarrow> None
           | (n, None) \<Rightarrow>
               if n \<noteq> int (length raw) then None
               else (case readFrom e i of
                       (dat, src, Some err) \<Rightarrow> None
                     | (dat, src, None) \<Rightarrow> Some (receiveInto (makeBuffer bufferSize) dat))))"

text \<open>A TCP iteration gets past the dial and the read deadline.\<close>

definition tcpConnected :: "env \<Rightarrow> int \<Rightarrow> nat \<Rightarrow> string \<Rightarrow> bool" where
  "tcpConnected e timeout i url =
     (dial e i ''tcp'' url = None \<and>
      (if timeout > 0 then setReadDeadline e i (deadlineNow e i + timeout) else None) = None)"

definition tcpReceived :: "env \<Rightarrow> int \<Rightarrow> byte list \<Rightarrow> nat \<Rightarrow> string \<Rightarrow> byte list option" where
  "tcpReceived e timeout raw i url =
     (if \<not> tcpConnected e timeout i url then None
      else
        (case resolveTCPAddr e i ''tcp'' url of
           Inl err \<Rightarrow> None
         | Inr tcpAddr \<Rightarrow>
             (case tcpWrite e i raw of
                (n, Some err) \<Rightarrow> None
              | (n, None) \<Rightarrow>
                  if n \<noteq> int (length raw) then None
                  else (case tcpRead e i of
                          (dat, Some err) \<Rightarrow> None
                        | (dat, None) \<Rightarrow> Some (receiveInto (makeBuffer bufferSize) dat)))))"

text \<open>Kinds of events.\<close>

fun isDeadline :: "event \<Rightarrow> bool" where
  "isDeadline (SetDeadline d) = True"
| "isDeadline (SetReadDeadline c d) = True"
| "isDeadline ev = False"

fun isDialOrDeadline :: "event \<Rightarrow> bool" where
  "isDialOrDeadline (Dial c n u) = True"
| "isDialOrDeadline ev = isDeadline ev"

fun isRequestEvent :: "event \<Rightarrow> bool" where
  "isRequestEvent StunBuild = True"
| "isRequestEvent MarshalBinary = True"
| "isRequestEvent (WriteTo b a) = True"
| "isRequestEvent (TCPWrite c b) = True"
| "isRequestEvent ev = False"

fun isResolve :: "event \<Rightarrow> bool" where
  "isResolve (ResolveUDPAddr n u) = True"
| "isResolve (ResolveTCPAddr n u) = True"
| "isResolve ev = False"

fun isClose :: "event \<Rightarrow> bool" where
  "isClose (TCPClose c) = True"
| "isClose UDPClose = True"
| "isClose ev = False"

fun isConnectionEvent :: "event \<Rightarrow> bool" where
  "isConnectionEvent (Dial c n u) = True"
| "isConnectionEvent (TCPWrite c b) = True"
| "isConnectionEvent (TCPRead c n) = True"
| "isConnectionEvent (TCPClose c) = True"
| "isConnectionEvent ev = False"

fun isDial :: "event \<Rightarrow> bool" where
  "isDial (Dial c n u) = True"
| "isDial ev = False"

text \<open>The server named by an error-level log entry.\<close>

fun errorLogURL :: "event \<Rightarrow> string list" where
  "errorLogURL (Log ErrorLevel (Some u) msg) = [u]"
| "errorLogURL ev = []"

definition errorLogURLs :: "event list \<Rightarrow> string list" where
  "errorLogURLs evs = concat (map errorLogURL evs)"

text \<open>
  The address the response check accepts for a buffer, if any: the buffer decodes, the
  class is the success response, an address is extracted and the transaction ID is the
  request's. This is \<open>checkResponse\<close> without the state.
\<close>

definition acceptedAddr :: "env \<Rightarrow> Message \<Rightarrow> byte list \<Rightarrow> string option" where
  "acceptedAddr e bindRequest buf =
     (case decode e buf of
        Inl err \<Rightarrow> None
      | Inr response \<Rightarrow>
          if Class response = ClassSuccessResponse then
            (case getFrom e response of
               Inl err \<Rightarrow> None
             | Inr a \<Rightarrow>
                 if TransactionID bindRequest = TransactionID response then Some a else None)
          else None)"

text \<open>A probe that did not get a buffer, or whose buffer the response check rejects.\<close>

definition probeFailed :: "env \<Rightarrow> Message \<Rightarrow> byte list option \<Rightarrow> bool" where
  "probeFailed e req received =
     (case received of None \<Rightarrow> True | Some buf \<Rightarrow> acceptedAddr e req buf = None)"

text \<open>
  The world \<open>e\<close> with the source address of every datagram replaced: \<open>f i src\<close> is
  reported as the sender of the datagram of iteration \<open>i\<close> instead of \<open>src\<close>.
\<close>

definition withSender :: "(nat \<Rightarrow> string \<Rightarrow> string) \<Rightarrow> env \<Rightarrow> env" where
  "withSender f e =
     e\<lparr>readFrom := (\<lambda>i. case readFrom e i of (dat, src, err) \<Rightarrow> (dat, f i src, err))\<rparr>"

section \<open>Sample worlds\<close>

text \<open>
  A binding request with a fixed transaction ID, its 20 bytes on the wire, and a success
  response of 32 bytes carrying the XOR-mapped address 203.0.113.5:54321.
\<close>

definition sampleID :: "byte list" where
  "sampleID = [1, 2, 3, 4, 5, 6, 7, 8, 9, 10, 11, 12]"

definition sampleRequest :: Message where
  "sampleRequest = \<lparr>Class = ClassRequest, TransactionID = sampleID, Attributes = []\<rparr>"

definition sampleRequestRaw :: "byte list" where
  "sampleRequestRaw = [0x00, 0x01, 0x00, 0x00, 0x21, 0x12, 0xA4, 0x42] @ sampleID"

definition sampleAttributes :: "byte list" where
  "sampleAttributes =
     [0x00, 0x20, 0x00, 0x08, 0x00, 0x01, 0xF5, 0x23, 0xEA, 0x12, 0xD5, 0x47]"

definition sampleResponse :: Message where
  "sampleResponse =
     \<lparr>Class = ClassSuccessResponse, TransactionID = sampleID, Attributes = sampleAttributes\<rparr>"

definition sampleResponseRaw :: "byte list" where
  "sampleResponseRaw =
     [0x01, 0x01, 0x00, 0x0C, 0x21, 0x12, 0xA4, 0x42] @ sampleID @ sampleAttributes"

text \<open>
  A world in which every call succeeds: every server resolves to 192.0.2.10:3478,
  takes the whole request and answers with the success response 150 ns later.
\<close>

definition worldOK :: env where
  "worldOK =
     \<lparr>listenPacket = None,
      timeNow = 1000,
      setDeadline = (\<lambda>d. None),
      build = Inr sampleRequest,
      marshalBinary = (\<lambda>m. Inr sampleRequestRaw),
      decode = (\<lambda>buf. Inr sampleResponse),
      getFrom = (\<lambda>m. Inr ''203.0.113.5:54321''),
      bindStart = (\<lambda>i. 2000),
      bindEnd = (\<lambda>i. 2150),
      resolveUDPAddr = (\<lambda>i n u. Inr ''192.0.2.10:3478''),
      writeTo = (\<lambda>i b a. (int (length b), None)),
      readFrom = (\<lambda>i. (sampleResponseRaw, ''192.0.2.10:3478'', None)),
      dial = (\<lambda>i n u. None),
      deadlineNow = (\<lambda>i. 1500),
      setReadDeadline = (\<lambda>i d. None),
      resolveTCPAddr = (\<lambda>i n u. Inr ''192.0.2.10:3478''),
      tcpWrite = (\<lambda>i b. (int (length b), None)),
      tcpRead = (\<lambda>i. (sampleResponseRaw, None))\<rparr>"

text \<open>The first server of the list does not resolve; the others are as in \<open>worldOK\<close>.\<close>

definition worldFirstUnresolved :: env where
  "worldFirstUnresolved =
     worldOK
       \<lparr>resolveUDPAddr :=
          (\<lambda>i n u. if i = 0 then Inl (Err ''no such host'') else Inr ''192.0.2.10:3478''),
        resolveTCPAddr :=
          (\<lambda>i n u. if i = 0 then Inl (Err ''no such host'') else Inr ''192.0.2.10:3478'')\<rparr>"

text \<open>Every dial is refused.\<close>

definition worldDialRefused :: env where
  "worldDialRefused = worldOK\<lparr>dial := (\<lambda>i n u. Some (Err ''connection refused''))\<rparr>"

text \<open>The codec cannot build the request (its source of random bytes fails).\<close>

definition worldBuildFails :: env where
  "worldBuildFails = worldOK\<lparr>build := Inl (Err ''read of random bytes failed'')\<rparr>"

text \<open>
  A resolver for a host that has only an IPv6 address: the networks that ask for IPv4
  get an error, the others the IPv6 address. Both resolve calls of the world use it.
\<close>

definition resolveIPv6Only :: "string \<Rightarrow> string \<Rightarrow> error + string" where
  "resolveIPv6Only network url =
     (if network = ''udp4'' \<or> network = ''tcp4'' \<or> network = ''ip4''
      then Inl (Err ''no suitable address found'')
      else Inr ''[2001:db8::10]:3478'')"

definition worldIPv6Only :: env where
  "worldIPv6Only =
     worldOK\<lparr>resolveUDPAddr := (\<lambda>i. resolveIPv6Only),
             resolveTCPAddr := (\<lambda>i. resolveIPv6Only)\<rparr>"

text \<open>The datagrams arrive from another sender than the server that was asked.\<close>

definition worldOtherSender :: env where
  "worldOtherSender =
     worldOK\<lparr>readFrom := (\<lambda>i. (sampleResponseRaw, ''198.51.100.99:40000'', None))\<rparr>"

subsection \<open>A codec that reads the buffer\<close>

text \<open>
  The worlds above answer every decode with the same message. The worlds below decode
  the buffer they are given, the way the header checks of the pion decoder do: at least
  20 bytes, the magic cookie in bytes 4 to 7, and as many bytes after the header as the
  length field of bytes 2 and 3 says; the class is read from the two class bits of the
  message type, the transaction ID is bytes 8 to 19 and the attributes are the bytes the
  length field counts. Bytes of the buffer past the message are not looked at. The
  address is extracted from a single XOR-MAPPED-ADDRESS attribute of family IPv4: port
  and address are XORed with the magic cookie and printed in decimal.
\<close>

unbundle bit_operations_syntax

definition magicCookie :: "byte list" where
  "magicCookie = [0x21, 0x12, 0xA4, 0x42]"

definition classOf :: "byte \<Rightarrow> byte \<Rightarrow> MessageClass" where
  "classOf b0 b1 =
     (if b0 AND 0x01 = 0
      then (if b1 AND 0x10 = 0 then ClassRequest else ClassIndication)
      else (if b1 AND 0x10 = 0 then ClassSuccessResponse else ClassErrorResponse))"

definition sampleDecode :: "byte list \<Rightarrow> error + Message" where
  "sampleDecode buf =
     (if length buf < 20 then Inl (Err ''unexpected EOF'')
      else if take 4 (drop 4 buf) \<noteq> magicCookie then Inl (Err ''invalid magic cookie'')
      else
        (let size = unat (buf ! 2) * 256 + unat (buf ! 3) in
         if length buf < 20 + size
         then Inl (Err ''buffer length is less than expected message size'')
         else Inr \<lparr>Class = classOf (buf ! 0) (buf ! 1),
                   TransactionID = take 12 (drop 8 buf),
                   Attributes = take size (drop 20 buf)\<rparr>))"

fun showNat :: "nat \<Rightarrow> string" where
  "showNat n =
     (if n < 10 then [''0123456789'' ! n]
      else showNat (n div 10) @ [''0123456789'' ! (n mod 10)])"

declare showNat.simps [simp del]

definition sampleGetFrom :: "Message \<Rightarrow> error + string" where
  "sampleGetFrom m =
     (case Attributes m of
        [t0, t1, l0, l1, f0, f1, p0, p1, a0, a1, a2, a3] \<Rightarrow>
          if [t0, t1, l0, l1, f0, f1] = [0x00, 0x20, 0x00, 0x08, 0x00, 0x01]
          then Inr (showNat (unat (a0 XOR 0x21)) @ ''.'' @ showNat (unat (a1 XOR 0x12)) @ ''.'' @
                    showNat (unat (a2 XOR 0xA4)) @ ''.'' @ showNat (unat (a3 XOR 0x42)) @ '':'' @
                    showNat (unat (p0 XOR 0x21) * 256 + unat (p1 XOR 0x12)))
          else Inl (Err ''no XOR-MAPPED-ADDRESS of family IPv4'')
      | _ \<Rightarrow> Inl (Err ''no XOR-MAPPED-ADDRESS of family IPv4''))"

text \<open>As \<open>worldOK\<close>, with the codec that reads the buffer.\<close>

definition worldCodec :: env where
  "worldCodec = worldOK\<lparr>decode := sampleDecode, getFrom := sampleGetFrom\<rparr>"

text \<open>
  Only the first 28 bytes of the 32 of the response arrive (a datagram cut short, a TCP read
  that returns before the last segment): the header, the head of the attribute, the family
  and the port, without the four bytes of the address.
\<close>

definition sampleTruncatedRaw :: "byte list" where
  "sampleTruncatedRaw = take 28 sampleResponseRaw"

definition worldTruncated :: env where
  "worldTruncated =
     worldCodec\<lparr>readFrom := (\<lambda>i. (sampleTruncatedRaw, ''192.0.2.10:3478'', None)),
                tcpRead := (\<lambda>i. (sampleTruncatedRaw, None))\<rparr>"

text \<open>The clock reads the same before the send and after the checks.\<close>

definition worldSameReading :: env where
  "worldSameReading = worldCodec\<lparr>bindEnd := (\<lambda>i. 2000)\<rparr>"

text \<open>The servers answer with the transaction ID of another request.\<close>

definition sampleOtherIDRaw :: "byte list" where
  "sampleOtherIDRaw =
     [0x01, 0x01, 0x00, 0x0C, 0x21, 0x12, 0xA4, 0x42] @
     [1, 2, 3, 4, 5, 6, 7, 8, 9, 10, 11, 13] @ sampleAttributes"

definition worldOtherID :: env where
  "worldOtherID =
     worldCodec\<lparr>readFrom := (\<lambda>i. (sampleOtherIDRaw, ''192.0.2.10:3478'', None))\<rparr>"

section \<open>Lemmas about the model\<close>

subsection \<open>State and buffer\<close>

lemma trace_emit [simp]: "trace (emit ev s) = trace s @ [ev]"
  by (simp add: emit_def)

lemma responses_emit [simp]: "stunResponses (emit ev s) = stunResponses s"
  by (simp add: emit_def)

lemma deferred_emit [simp]: "deferred (emit ev s) = deferred s"
  by (simp add: emit_def)

lemma trace_logAt [simp]: "trace (logAt l url msg s) = trace s @ [Log l (Some url) msg]"
  by (simp add: logAt_def)

lemma responses_logAt [simp]: "stunResponses (logAt l url msg s) = stunResponses s"
  by (simp add: logAt_def)

lemma deferred_logAt [simp]: "deferred (logAt l url msg s) = deferred s"
  by (simp add: logAt_def)

lemma trace_appendResponse [simp]: "trace (appendResponse r s) = trace s"
  by (simp add: appendResponse_def)

lemma responses_appendResponse [simp]:
  "stunResponses (appendResponse r s) = stunResponses s @ [r]"
  by (simp add: appendResponse_def)

lemma deferred_appendResponse [simp]: "deferred (appendResponse r s) = deferred s"
  by (simp add: appendResponse_def)

lemma trace_updateResponse [simp]: "trace (updateResponse k f s) = trace s"
  by (simp add: updateResponse_def)

lemma responses_updateResponse [simp]:
  "stunResponses (updateResponse k f s) = (stunResponses s)[k := f (stunResponses s ! k)]"
  by (simp add: updateResponse_def)

lemma deferred_updateResponse [simp]: "deferred (updateResponse k f s) = deferred s"
  by (simp add: updateResponse_def)

lemma init_simps [simp]: "trace init = []" "stunResponses init = []" "deferred init = []"
  by (simp_all add: init_def)

lemma length_makeBuffer [simp]: "length (makeBuffer n) = n"
  by (simp add: makeBuffer_def)

lemma length_receiveInto [simp]: "length (receiveInto buf dat) = length buf"
  by (simp add: receiveInto_def)

lemma receiveInto_makeBuffer:
  "receiveInto (makeBuffer n) dat = take n dat @ replicate (n - length dat) 0"
  by (simp add: receiveInto_def makeBuffer_def)

subsection \<open>The response check\<close>

lemma checkEvents_eq:
  "checkEvents e req url buf =
     StunDecode buf #
     (case decode e buf of
        Inl err \<Rightarrow> [Log ErrorLevel (Some url) ''Error decoding STUN message'']
      | Inr m \<Rightarrow>
          if Class m = ClassSuccessResponse then
            GetFrom #
            (case getFrom e m of
               Inl err \<Rightarrow> [Log ErrorLevel (Some url) ''Error extracting address from STUN message'']
             | Inr a \<Rightarrow>
                 if TransactionID req \<noteq> TransactionID m
                 then [Log ErrorLevel (Some url) ''Transaction ID mismatch (expected %s, got %s)'']
                 else [])
          else [Log ErrorLevel (Some url) ''Unexpected STUN response received''])"
  by (simp add: checkResponse_def checkEvents_def Let_def
      split: sum.splits MessageClass.splits)

lemma trace_checkResponse:
  "trace (checkResponse e req i url k start buf s) = trace s @ checkEvents e req url buf"
  by (simp add: checkResponse_def checkEvents_def Let_def
      split: sum.splits MessageClass.splits)

lemma deferred_checkResponse [simp]:
  "deferred (checkResponse e req i url k start buf s) = deferred s"
  by (simp add: checkResponse_def Let_def split: sum.splits MessageClass.splits)

lemma responses_checkResponse:
  "stunResponses (checkResponse e req i url k start buf s) =
     (case acceptedAddr e req buf of
        None \<Rightarrow> stunResponses s
      | Some a \<Rightarrow> (stunResponses s)[k := (stunResponses s ! k)
           \<lparr>BindResponseAddr := Some a, TimeToBindResponse := Some (bindEnd e i - start)\<rparr>])"
  by (simp add: checkResponse_def acceptedAddr_def Let_def
      split: sum.splits MessageClass.splits)

subsection \<open>One iteration of testUDP\<close>

lemma trace_udpIter:
  "trace (udpIter e req raw i url s) = trace s @ udpEvents e req raw i url"
  by (simp add: udpIter_def udpEvents_def Let_def trace_checkResponse
      split: sum.splits prod.splits option.splits)

lemma deferred_udpIter [simp]: "deferred (udpIter e req raw i url s) = deferred s"
  by (simp add: udpIter_def Let_def split: sum.splits prod.splits option.splits)

lemma responses_udpIter:
  "stunResponses (udpIter e req raw i url s) = stunResponses s @ [udpOutcome e req raw i url]"
  by (simp add: udpIter_def udpOutcome_def Let_def responses_checkResponse
      split: sum.splits prod.splits option.splits)

lemma udpEvents_eq:
  "udpEvents e req raw i url =
     ResolveUDPAddr ''udp4'' url #
     (case resolveUDPAddr e i ''udp4'' url of
        Inl err \<Rightarrow> [Log ErrorLevel (Some url) ''Error resolving URL to a UDP address'']
      | Inr a \<Rightarrow>
          WriteTo raw a #
          (case writeTo e i raw a of
             (n, Some err) \<Rightarrow> [Log ErrorLevel (Some url) ''Error writing to conn'']
           | (n, None) \<Rightarrow>
               if n \<noteq> int (length raw)
               then [Log ErrorLevel (Some url) ''Only wrote %d/%d of bind request'']
               else
                 ReadFrom bufferSize #
                 (case readFrom e i of
                    (dat, src, Some err) \<Rightarrow> [Log ErrorLevel (Some url) ''Error reading from conn'']
                  | (dat, src, None) \<Rightarrow>
                      checkEvents e req url (receiveInto (makeBuffer bufferSize) dat))))"
  by (auto simp add: udpIter_def udpEvents_def Let_def trace_checkResponse
      split: sum.splits prod.splits option.splits)

lemma udpOutcome_eq:
  "udpOutcome e req raw i url =
     \<lparr>STUNServerURL = url,
      STUNServerAddr = (case resolveUDPAddr e i ''udp4'' url of Inl err \<Rightarrow> None | Inr a \<Rightarrow> Some a),
      BindResponseAddr =
        (case udpReceived e raw i url of None \<Rightarrow> None | Some buf \<Rightarrow> acceptedAddr e req buf),
      TimeToBindResponse =
        (case udpReceived e raw i url of
           None \<Rightarrow> None
         | Some buf \<Rightarrow>
             (case acceptedAddr e req buf of
                None \<Rightarrow> None
              | Some a \<Rightarrow> Some (bindEnd e i - bindStart e i)))\<rparr>"
  by (auto simp add: udpIter_def udpOutcome_def udpReceived_def Let_def responses_checkResponse
      NewSTUNResponse_def
      split: sum.splits prod.splits option.splits)

lemma trace_udpLoop:
  "trace (udpLoop e req raw i urls s) =
     trace s @ concat (map (\<lambda>(j, u). udpEvents e req raw j u) (enumerate i urls))"
  by (induction urls arbitrary: i s) (simp_all add: trace_udpIter)

lemma responses_udpLoop:
  "stunResponses (udpLoop e req raw i urls s) =
     stunResponses s @ map (\<lambda>(j, u). udpOutcome e req raw j u) (enumerate i urls)"
  by (induction urls arbitrary: i s) (simp_all add: responses_udpIter)

subsection \<open>One iteration of testTCP\<close>

lemma trace_tcpIter:
  "trace (tcpIter e t req raw i url s) = trace s @ tcpEvents e t req raw i url"
  by (auto simp add: tcpIter_def tcpEvents_def Let_def trace_checkResponse
      split: sum.splits prod.splits option.splits)

lemma deferred_tcpIter:
  "deferred (tcpIter e t req raw i url s) = tcpDeferred e t req raw i url @ deferred s"
  by (auto simp add: tcpIter_def tcpDeferred_def Let_def
      split: sum.splits prod.splits option.splits)

lemma responses_tcpIter:
  "stunResponses (tcpIter e t req raw i url s) = stunResponses s @ tcpOutcomes e t req raw i url"
  by (auto simp add: tcpIter_def tcpOutcomes_def Let_def responses_checkResponse
      split: sum.splits prod.splits option.splits)

lemma tcpDeferred_eq:
  "tcpDeferred e t req raw i url = (if dial e i ''tcp'' url = None then [i] else [])"
  by (auto simp add: tcpIter_def tcpDeferred_def Let_def
      split: sum.splits prod.splits option.splits)

lemma tcpEvents_eq:
  "tcpEvents e t req raw i url =
     Dial i ''tcp'' url #
     (case dial e i ''tcp'' url of
        Some err \<Rightarrow> [Log ErrorLevel (Some url) ''Error dialing STUN server via tcp'']
      | None \<Rightarrow>
          (if t > 0 then [SetReadDeadline i (deadlineNow e i + t)] else []) @
          (case (if t > 0 then setReadDeadline e i (deadlineNow e i + t) else None) of
             Some err \<Rightarrow>
               [Log ErrorLevel (Some url) ''Error setting read deadline on TCP connection'']
           | None \<Rightarrow>
               ResolveTCPAddr ''tcp'' url #
               (case resolveTCPAddr e i ''tcp'' url of
                  Inl err \<Rightarrow> [Log ErrorLevel (Some url) ''Error resolving URL to a TCP address'']
                | Inr a \<Rightarrow>
                    TCPWrite i raw #
                    (case tcpWrite e i raw of
                       (n, Some err) \<Rightarrow> [Log ErrorLevel (Some url) ''Error writing to conn'']
                     | (n, None) \<Rightarrow>
                         if n \<noteq> int (length raw)
                         then [Log ErrorLevel (Some url) ''Only wrote %d/%d of bind request'']
                         else
                           TCPRead i bufferSize #
                           (case tcpRead e i of
                              (dat, Some err) \<Rightarrow>
                                [Log ErrorLevel (Some url) ''Error reading from conn'']
                            | (dat, None) \<Rightarrow>
                                checkEvents e req url
                                  (receiveInto (makeBuffer bufferSize) dat))))))"
  by (auto simp add: tcpIter_def tcpEvents_def Let_def trace_checkResponse
      split: sum.splits prod.splits option.splits)

lemma tcpOutcomes_eq:
  "tcpOutcomes e t req raw i url =
     (if tcpConnected e t i url then
        [\<lparr>STUNServerURL = url,
          STUNServerAddr =
            (case resolveTCPAddr e i ''tcp'' url of Inl err \<Rightarrow> None | Inr a \<Rightarrow> Some a),
          BindResponseAddr =
            (case tcpReceived e t raw i url of
               None \<Rightarrow> None | Some buf \<Rightarrow> acceptedAddr e req buf),
          TimeToBindResponse =
            (case tcpReceived e t raw i url of
               None \<Rightarrow> None
             | Some buf \<Rightarrow>
                 (case acceptedAddr e req buf of
                    None \<Rightarrow> None
                  | Some a \<Rightarrow> Some (bindEnd e i - bindStart e i)))\<rparr>]
      else [])"
  by (auto simp add: tcpIter_def tcpOutcomes_def tcpReceived_def tcpConnected_def Let_def
      responses_checkResponse NewSTUNResponse_def
      split: sum.splits prod.splits option.splits)

lemma trace_tcpLoop:
  "trace (tcpLoop e t req raw i urls s) =
     trace s @ concat (map (\<lambda>(j, u). tcpEvents e t req raw j u) (enumerate i urls))"
  by (induction urls arbitrary: i s) (simp_all add: trace_tcpIter)

lemma responses_tcpLoop:
  "stunResponses (tcpLoop e t req raw i urls s) =
     stunResponses s @ concat (map (\<lambda>(j, u). tcpOutcomes e t req raw j u) (enumerate i urls))"
  by (induction urls arbitrary: i s) (simp_all add: responses_tcpIter)

lemma deferred_tcpLoop:
  "deferred (tcpLoop e t req raw i urls s) =
     rev (map fst (filter (\<lambda>(j, u). dial e j ''tcp'' u = None) (enumerate i urls))) @ deferred s"
  by (induction urls arbitrary: i s) (simp_all add: deferred_tcpIter tcpDeferred_eq)

lemma trace_runDeferred [simp]: "trace (runDeferred cs s) = trace s @ map TCPClose cs"
  by (induction cs arbitrary: s) simp_all

lemma responses_runDeferred [simp]: "stunResponses (runDeferred cs s) = stunResponses s"
  by (induction cs arbitrary: s) simp_all

subsection \<open>The two runs\<close>

lemma fst_testUDP: "fst (testUDP e t urls) = None \<longleftrightarrow> udpSetup e t \<noteq> None"
  by (simp add: testUDP_def udpSetup_def request_def Let_def
      split: sum.splits option.splits)

lemma trace_testUDP:
  "udpSetup e t = Some (req, raw) \<Longrightarrow>
   trace (snd (testUDP e t urls)) =
     ListenPacket ''udp'' ''0.0.0.0:0'' # (if t > 0 then [SetDeadline (timeNow e + t)] else []) @
     [StunBuild, MarshalBinary] @
     concat (map (\<lambda>(i, u). udpEvents e req raw i u) (enumerate 0 urls)) @
     [LogSTUNResults (map (\<lambda>(i, u). udpOutcome e req raw i u) (enumerate 0 urls)), UDPClose]"
  by (auto simp add: testUDP_def udpSetup_def request_def Let_def trace_udpLoop
      responses_udpLoop init_def emit_def split: sum.splits option.splits if_splits)

lemma responses_testUDP:
  "udpSetup e t = Some (req, raw) \<Longrightarrow>
   stunResponses (snd (testUDP e t urls)) =
     map (\<lambda>(i, u). udpOutcome e req raw i u) (enumerate 0 urls)"
  by (auto simp add: testUDP_def udpSetup_def request_def Let_def
      responses_udpLoop init_def emit_def split: sum.splits option.splits if_splits)

lemma fst_testTCP: "fst (testTCP e t urls) = None \<longleftrightarrow> request e \<noteq> None"
  by (simp add: testTCP_def request_def Let_def split: sum.splits option.splits)

lemma trace_testTCP:
  "request e = Some (req, raw) \<Longrightarrow>
   trace (snd (testTCP e t urls)) =
     [StunBuild, MarshalBinary] @
     concat (map (\<lambda>(i, u). tcpEvents e t req raw i u) (enumerate 0 urls)) @
     LogSTUNResults (concat (map (\<lambda>(i, u). tcpOutcomes e t req raw i u) (enumerate 0 urls))) #
     map TCPClose (rev (map fst (filter (\<lambda>(i, u). dial e i ''tcp'' u = None) (enumerate 0 urls))))"
  by (auto simp add: testTCP_def request_def Let_def trace_tcpLoop deferred_tcpLoop
      responses_tcpLoop init_def emit_def split: sum.splits option.splits if_splits)

lemma responses_testTCP:
  "request e = Some (req, raw) \<Longrightarrow>
   stunResponses (snd (testTCP e t urls)) =
     concat (map (\<lambda>(i, u). tcpOutcomes e t req raw i u) (enumerate 0 urls))"
  by (auto simp add: testTCP_def request_def Let_def
      responses_tcpLoop init_def emit_def split: sum.splits option.splits if_splits)

lemma request_Some_iff:
  "request e \<noteq> None \<longleftrightarrow> (\<exists>req raw. build e = Inr req \<and> marshalBinary e req = Inr raw)"
  by (auto simp add: request_def split: sum.splits)

lemma udpSetup_Some_iff:
  "udpSetup e t \<noteq> None \<longleftrightarrow>
     listenPacket e = None \<and> (0 < t \<longrightarrow> setDeadline e (timeNow e + t) = None) \<and>
     request e \<noteq> None"
  by (auto simp add: udpSetup_def split: option.splits)

lemma main_None_iff:
  "main eu et = None \<longleftrightarrow>
     fst (testUDP eu mainTimeout stunServerURLsToTestUDP) = None \<and>
     fst (testTCP et mainTimeout stunServerURLsToTestTCP) = None"
  by (simp add: main_def split: option.splits)

lemma acceptedAddr_iff:
  "acceptedAddr e req buf = Some a \<longleftrightarrow>
     (\<exists>m. decode e buf = Inr m \<and> Class m = ClassSuccessResponse \<and> getFrom e m = Inr a \<and>
          TransactionID m = TransactionID req)"
  by (auto simp add: acceptedAddr_def split: sum.splits)

lemma tcpOutcomes_single:
  "tcpOutcomes e t req raw i url =
     (if tcpConnected e t i url then [tcpOutcome e t req raw i url] else [])"
  by (simp add: tcpOutcomes_eq tcpOutcome_def tcpOutcomes_def [symmetric])

lemma tcpOutcome_eq:
  "tcpConnected e t i url \<Longrightarrow>
   tcpOutcome e t req raw i url =
     \<lparr>STUNServerURL = url,
      STUNServerAddr =
        (case resolveTCPAddr e i ''tcp'' url of Inl err \<Rightarrow> None | Inr a \<Rightarrow> Some a),
      BindResponseAddr =
        (case tcpReceived e t raw i url of
           None \<Rightarrow> None | Some buf \<Rightarrow> acceptedAddr e req buf),
      TimeToBindResponse =
        (case tcpReceived e t raw i url of
           None \<Rightarrow> None
         | Some buf \<Rightarrow>
             (case acceptedAddr e req buf of
                None \<Rightarrow> None
              | Some a \<Rightarrow> Some (bindEnd e i - bindStart e i)))\<rparr>"
  by (simp add: tcpOutcomes_eq tcpOutcome_def tcpOutcomes_def [symmetric])

lemma concat_map_if_single:
  "concat (map (\<lambda>x. if P x then [f x] else []) xs) = map f (filter P xs)"
  by (induction xs) simp_all

lemma responses_testTCP_served:
  "request e = Some (req, raw) \<Longrightarrow>
   stunResponses (snd (testTCP e t urls)) =
     map (\<lambda>(i, u). tcpOutcome e t req raw i u)
       (filter (\<lambda>(i, u). tcpConnected e t i u) (enumerate 0 urls))"
proof -
  have "(\<lambda>(i, u). tcpOutcomes e t req raw i u) =
        (\<lambda>x. if (\<lambda>(i, u). tcpConnected e t i u) x then [(\<lambda>(i, u). tcpOutcome e t req raw i u) x] else [])"
    by (auto simp add: fun_eq_iff tcpOutcomes_single)
  moreover assume "request e = Some (req, raw)"
  ultimately show ?thesis
    by (simp only: responses_testTCP concat_map_if_single)
qed

lemma udp_nth_outcome:
  "udpSetup e t = Some (req, raw) \<Longrightarrow> i < length urls \<Longrightarrow>
   stunResponses (snd (testUDP e t urls)) ! i = udpOutcome e req raw i (urls ! i)"
  by (simp add: responses_testUDP nth_enumerate_eq)

lemma udpReceived_iff:
  "udpReceived e raw i url = Some buf \<longleftrightarrow>
     (\<exists>addr dat src.
        resolveUDPAddr e i ''udp4'' url = Inr addr \<and>
        writeTo e i raw addr = (int (length raw), None) \<and>
        readFrom e i = (dat, src, None) \<and>
        buf = take 2000 dat @ replicate (2000 - length dat) 0)"
  by (auto simp add: udpReceived_def receiveInto_makeBuffer bufferSize_def
      split: sum.splits prod.splits option.splits if_splits)

lemma tcpReceived_iff:
  "tcpConnected e t i url \<Longrightarrow>
   tcpReceived e t raw i url = Some buf \<longleftrightarrow>
     (\<exists>addr dat.
        resolveTCPAddr e i ''tcp'' url = Inr addr \<and>
        tcpWrite e i raw = (int (length raw), None) \<and>
        tcpRead e i = (dat, None) \<and>
        buf = take 2000 dat @ replicate (2000 - length dat) 0)"
  by (auto simp add: tcpReceived_def receiveInto_makeBuffer bufferSize_def
      split: sum.splits prod.splits option.splits if_splits)

subsection \<open>Projections of the trace\<close>

lemma errorLogURLs_simps [simp]:
  "errorLogURLs [] = []"
  "errorLogURLs (ev # evs) = errorLogURL ev @ errorLogURLs evs"
  "errorLogURLs (evs @ evs') = errorLogURLs evs @ errorLogURLs evs'"
  by (simp_all add: errorLogURLs_def)

lemma errorLogURLs_closes [simp]: "errorLogURLs (map TCPClose cs) = []"
  by (induction cs) simp_all

lemma errorLogURLs_concat: "errorLogURLs (concat xss) = concat (map errorLogURLs xss)"
  by (induction xss) simp_all

lemma concat_map_enumerate_single:
  "concat (map (\<lambda>(i, u). [f i u]) (enumerate n urls)) = map (\<lambda>(i, u). f i u) (enumerate n urls)"
  by (induction urls arbitrary: n) simp_all

lemma map_snd_enumerate: "map (\<lambda>(i, u). g u) (enumerate n urls) = map g urls"
  by (induction urls arbitrary: n) simp_all

lemma concat_map_enumerate_if:
  "concat (map (\<lambda>(i, u). if P i u then [u] else []) (enumerate n urls)) =
     map snd (filter (\<lambda>(i, u). P i u) (enumerate n urls))"
  by (induction urls arbitrary: n) simp_all

lemma errorLogURLs_checkEvents:
  "errorLogURLs (checkEvents e req url buf) = (if acceptedAddr e req buf = None then [url] else [])"
  by (simp add: checkEvents_eq acceptedAddr_def split: sum.splits)

lemma errorLogURLs_udpEvents:
  "errorLogURLs (udpEvents e req raw i url) =
     (if probeFailed e req (udpReceived e raw i url) then [url] else [])"
  by (auto simp add: udpEvents_eq probeFailed_def udpReceived_def errorLogURLs_checkEvents
      split: sum.splits prod.splits option.splits)

lemma errorLogURLs_tcpEvents:
  "errorLogURLs (tcpEvents e t req raw i url) =
     (if probeFailed e req (tcpReceived e t raw i url) then [url] else [])"
  by (auto simp add: tcpEvents_eq probeFailed_def tcpReceived_def tcpConnected_def
      errorLogURLs_checkEvents
      split: sum.splits prod.splits option.splits)

lemma isResolve_checkEvents [simp]: "filter isResolve (checkEvents e req url buf) = []"
  by (simp add: checkEvents_eq split: sum.splits)

lemma isDial_checkEvents [simp]: "filter isDial (checkEvents e req url buf) = []"
  by (simp add: checkEvents_eq split: sum.splits)

lemma isResolve_udpEvents:
  "filter isResolve (udpEvents e req raw i url) = [ResolveUDPAddr ''udp4'' url]"
  by (auto simp add: udpEvents_eq split: sum.splits prod.splits option.splits)

lemma isDial_tcpEvents:
  "filter isDial (tcpEvents e t req raw i url) = [Dial i ''tcp'' url]"
  by (auto simp add: tcpEvents_eq split: sum.splits prod.splits option.splits)

lemma filter_concat_enumerate:
  "filter P (concat (map (\<lambda>(i, u). f i u) (enumerate n urls))) =
     concat (map (\<lambda>(i, u). filter P (f i u)) (enumerate n urls))"
  by (induction urls arbitrary: n) simp_all

lemma errorLogURLs_concat_enumerate:
  "errorLogURLs (concat (map (\<lambda>(i, u). f i u) (enumerate n urls))) =
     concat (map (\<lambda>(i, u). errorLogURLs (f i u)) (enumerate n urls))"
  by (induction urls arbitrary: n) simp_all

lemma isClose_checkEvents [simp]: "filter isClose (checkEvents e req url buf) = []"
  by (simp add: checkEvents_eq split: sum.splits)

lemma isClose_tcpEvents: "filter isClose (tcpEvents e t req raw i url) = []"
  by (auto simp add: tcpEvents_eq split: sum.splits prod.splits option.splits)

lemma isClose_closes [simp]: "filter isClose (map TCPClose cs) = map TCPClose cs"
  by (induction cs) simp_all

lemma isClose_tcp_segments:
  "filter isClose (concat (map (\<lambda>(i, u). tcpEvents e t req raw i u) (enumerate n urls))) = []"
  by (induction urls arbitrary: n) (simp_all add: isClose_tcpEvents)

lemma isRequestEvent_checkEvents [simp]: "filter isRequestEvent (checkEvents e req url buf) = []"
  by (simp add: checkEvents_eq split: sum.splits)

lemma isRequestEvent_udpEvents:
  "filter isRequestEvent (udpEvents e req raw i url) =
     (if isl (resolveUDPAddr e i ''udp4'' url) then []
      else [WriteTo raw (projr (resolveUDPAddr e i ''udp4'' url))])"
  by (auto simp add: udpEvents_eq split: sum.splits prod.splits option.splits)

lemma isRequestEvent_tcpEvents:
  "filter isRequestEvent (tcpEvents e t req raw i url) =
     (if tcpConnected e t i url \<and> \<not> isl (resolveTCPAddr e i ''tcp'' url)
      then [TCPWrite i raw] else [])"
  by (auto simp add: tcpEvents_eq tcpConnected_def split: sum.splits prod.splits option.splits)

lemma concat_map_enumerate_if_single:
  "concat (map (\<lambda>(i, u). if P i u then [f i u] else []) (enumerate n urls)) =
     map (\<lambda>(i, u). f i u) (filter (\<lambda>(i, u). P i u) (enumerate n urls))"
  by (induction urls arbitrary: n) simp_all

lemma isRequestEvent_closes [simp]: "filter isRequestEvent (map TCPClose cs) = []"
  by (induction cs) simp_all

lemma isRequestEvent_udp_segments:
  "filter isRequestEvent (concat (map (\<lambda>(i, u). udpEvents e req raw i u) (enumerate n urls))) =
     map (\<lambda>(i, u). WriteTo raw (projr (resolveUDPAddr e i ''udp4'' u)))
       (filter (\<lambda>(i, u). \<not> isl (resolveUDPAddr e i ''udp4'' u)) (enumerate n urls))"
  by (induction urls arbitrary: n) (simp_all add: isRequestEvent_udpEvents)

lemma isRequestEvent_tcp_segments:
  "filter isRequestEvent (concat (map (\<lambda>(i, u). tcpEvents e t req raw i u) (enumerate n urls))) =
     map (\<lambda>(i, u). TCPWrite i raw)
       (filter (\<lambda>(i, u). tcpConnected e t i u \<and> \<not> isl (resolveTCPAddr e i ''tcp'' u))
          (enumerate n urls))"
  by (induction urls arbitrary: n) (simp_all add: isRequestEvent_tcpEvents)

lemma isDeadline_checkEvents [simp]: "filter isDeadline (checkEvents e req url buf) = []"
  by (simp add: checkEvents_eq split: sum.splits)

lemma isDialOrDeadline_checkEvents [simp]:
  "filter isDialOrDeadline (checkEvents e req url buf) = []"
  by (simp add: checkEvents_eq split: sum.splits)

lemma isDeadline_udpEvents: "filter isDeadline (udpEvents e req raw i url) = []"
  by (auto simp add: udpEvents_eq split: sum.splits prod.splits option.splits)

lemma isDeadline_udp_segments:
  "filter isDeadline (concat (map (\<lambda>(i, u). udpEvents e req raw i u) (enumerate n urls))) = []"
  by (induction urls arbitrary: n) (simp_all add: isDeadline_udpEvents)

lemma isDialOrDeadline_tcpEvents:
  "filter isDialOrDeadline (tcpEvents e t req raw i url) =
     Dial i ''tcp'' url #
     (if 0 < t \<and> dial e i ''tcp'' url = None
      then [SetReadDeadline i (deadlineNow e i + t)] else [])"
  by (auto simp add: tcpEvents_eq split: sum.splits prod.splits option.splits)

lemma isDialOrDeadline_tcp_segments:
  "filter isDialOrDeadline
     (concat (map (\<lambda>(i, u). tcpEvents e t req raw i u) (enumerate n urls))) =
   concat (map (\<lambda>(i, u). Dial i ''tcp'' u #
                  (if 0 < t \<and> dial e i ''tcp'' u = None
                   then [SetReadDeadline i (deadlineNow e i + t)] else []))
             (enumerate n urls))"
  by (induction urls arbitrary: n) (simp_all add: isDialOrDeadline_tcpEvents)

lemma isDialOrDeadline_closes [simp]: "filter isDialOrDeadline (map TCPClose cs) = []"
  by (induction cs) simp_all

lemma isDeadline_testUDP:
  "filter isDeadline (trace (snd (testUDP e t urls))) =
     (if 0 < t \<and> listenPacket e = None then [SetDeadline (timeNow e + t)] else [])"
  by (simp add: testUDP_def Let_def trace_udpLoop isDeadline_udp_segments
      split: sum.splits option.splits)

lemma isDialOrDeadline_testTCP:
  "filter isDialOrDeadline (trace (snd (testTCP e t urls))) =
     (case request e of
        None \<Rightarrow> []
      | Some (req, raw) \<Rightarrow>
          concat (map (\<lambda>(i, u). Dial i ''tcp'' u #
                         (if 0 < t \<and> dial e i ''tcp'' u = None
                          then [SetReadDeadline i (deadlineNow e i + t)] else []))
                    (enumerate 0 urls)))"
  by (simp add: testTCP_def request_def Let_def trace_tcpLoop isDialOrDeadline_tcp_segments
      split: sum.splits option.splits)

lemma isDeadline_tcpEvents:
  "filter isDeadline (tcpEvents e t req raw i url) =
     (if 0 < t \<and> dial e i ''tcp'' url = None
      then [SetReadDeadline i (deadlineNow e i + t)] else [])"
  by (auto simp add: tcpEvents_eq split: sum.splits prod.splits option.splits)

lemma isDeadline_tcp_segments:
  "t \<le> 0 \<Longrightarrow>
   filter isDeadline (concat (map (\<lambda>(i, u). tcpEvents e t req raw i u) (enumerate n urls))) = []"
  by (induction urls arbitrary: n) (simp_all add: isDeadline_tcpEvents)

lemma isDeadline_closes [simp]: "filter isDeadline (map TCPClose cs) = []"
  by (induction cs) simp_all

lemma isDeadline_testTCP:
  "t \<le> 0 \<Longrightarrow> filter isDeadline (trace (snd (testTCP e t urls))) = []"
  by (simp add: testTCP_def Let_def trace_tcpLoop isDeadline_tcp_segments
      split: sum.splits option.splits)

lemma take2_testUDP:
  "0 < t \<Longrightarrow> listenPacket e = None \<Longrightarrow>
   take 2 (trace (snd (testUDP e t urls))) =
     [ListenPacket ''udp'' ''0.0.0.0:0'', SetDeadline (timeNow e + t)]"
  by (simp add: testUDP_def Let_def trace_udpLoop split: sum.splits option.splits)

lemma isResolve_tcpEvents:
  "filter isResolve (tcpEvents e t req raw i url) =
     (if tcpConnected e t i url then [ResolveTCPAddr ''tcp'' url] else [])"
  by (auto simp add: tcpEvents_eq tcpConnected_def split: sum.splits prod.splits option.splits)

lemma isResolve_closes [simp]: "filter isResolve (map TCPClose cs) = []"
  by (induction cs) simp_all

lemma isResolve_tcp_segments:
  "filter isResolve (concat (map (\<lambda>(i, u). tcpEvents e t req raw i u) (enumerate n urls))) =
     map (\<lambda>(i, u). ResolveTCPAddr ''tcp'' u)
       (filter (\<lambda>(i, u). tcpConnected e t i u) (enumerate n urls))"
  by (induction urls arbitrary: n) (simp_all add: isResolve_tcpEvents)

lemma decode_in_checkEvents:
  "StunDecode b \<in> set (checkEvents e req url buf) \<Longrightarrow> b = buf"
  by (auto simp add: checkEvents_eq split: sum.splits if_splits)

lemma decode_in_udpEvents:
  "StunDecode b \<in> set (udpEvents e req raw i url) \<Longrightarrow>
   b = receiveInto (makeBuffer bufferSize) (fst (readFrom e i))"
  by (auto simp add: udpEvents_eq split: sum.splits prod.splits option.splits if_splits
      dest: decode_in_checkEvents)

lemma decode_in_tcpEvents:
  "StunDecode b \<in> set (tcpEvents e t req raw i url) \<Longrightarrow>
   b = receiveInto (makeBuffer bufferSize) (fst (tcpRead e i))"
  by (auto simp add: tcpEvents_eq split: sum.splits prod.splits option.splits if_splits
      dest: decode_in_checkEvents)

lemma decode_in_testUDP:
  "StunDecode b \<in> set (trace (snd (testUDP e t urls))) \<Longrightarrow>
   \<exists>req raw i u. (i, u) \<in> set (enumerate 0 urls) \<and> StunDecode b \<in> set (udpEvents e req raw i u)"
  by (auto simp add: testUDP_def Let_def trace_udpLoop split: sum.splits option.splits if_splits)

lemma decode_in_testTCP:
  "StunDecode b \<in> set (trace (snd (testTCP e t urls))) \<Longrightarrow>
   \<exists>req raw i u. (i, u) \<in> set (enumerate 0 urls) \<and> StunDecode b \<in> set (tcpEvents e t req raw i u)"
  by (auto simp add: testTCP_def Let_def trace_tcpLoop split: sum.splits option.splits if_splits)

lemma sample_buffer:
  "receiveInto (makeBuffer bufferSize) sampleResponseRaw = sampleResponseRaw @ replicate 1968 0"
  by (simp add: receiveInto_makeBuffer bufferSize_def sampleResponseRaw_def sampleID_def
      sampleAttributes_def)

lemma withSender_fields:
  "listenPacket (withSender f e) = listenPacket e"
  "timeNow (withSender f e) = timeNow e"
  "setDeadline (withSender f e) = setDeadline e"
  "build (withSender f e) = build e"
  "marshalBinary (withSender f e) = marshalBinary e"
  "decode (withSender f e) = decode e"
  "getFrom (withSender f e) = getFrom e"
  "bindStart (withSender f e) = bindStart e"
  "bindEnd (withSender f e) = bindEnd e"
  "resolveUDPAddr (withSender f e) = resolveUDPAddr e"
  "writeTo (withSender f e) = writeTo e"
  by (simp_all add: withSender_def)

lemma checkResponse_withSender:
  "checkResponse (withSender f e) req i url k start buf s = checkResponse e req i url k start buf s"
  unfolding checkResponse_def withSender_fields by (rule refl)

lemma udpIter_withSender:
  "udpIter (withSender f e) req raw i url s = udpIter e req raw i url s"
proof -
  obtain dat src err where rf: "readFrom e i = (dat, src, err)"
    by (cases "readFrom e i") auto
  then have rf': "readFrom (withSender f e) i = (dat, f i src, err)"
    by (simp add: withSender_def)
  show ?thesis
    unfolding udpIter_def withSender_fields checkResponse_withSender rf rf' prod.case
    by (rule refl)
qed

lemma udpLoop_withSender:
  "udpLoop (withSender f e) req raw i urls s = udpLoop e req raw i urls s"
  by (induction urls arbitrary: i s) (simp_all add: udpIter_withSender)

subsection \<open>The codec that reads the buffer, on the sample bytes\<close>

lemma replicate_four: "replicate 4 x = [x, x, x, x]"
  by (simp add: numeral_eq_Suc)

lemma sample_truncated_alone:
  "sampleDecode sampleTruncatedRaw =
     Inl (Err ''buffer length is less than expected message size'')"
  by (simp add: sampleDecode_def sampleTruncatedRaw_def sampleResponseRaw_def sampleID_def
      sampleAttributes_def magicCookie_def)

lemma sample_truncated_buffer:
  "sampleDecode (take 2000 sampleTruncatedRaw @ replicate (2000 - length sampleTruncatedRaw) 0) =
     Inr \<lparr>Class = ClassSuccessResponse, TransactionID = sampleID,
          Attributes = [0x00, 0x20, 0x00, 0x08, 0x00, 0x01, 0xF5, 0x23, 0, 0, 0, 0]\<rparr>"
  by (simp add: sampleDecode_def sampleTruncatedRaw_def sampleResponseRaw_def
      sampleID_def sampleAttributes_def magicCookie_def classOf_def nth_append replicate_four)

lemma sample_whole_buffer:
  "sampleDecode (take 2000 sampleResponseRaw @ replicate (2000 - length sampleResponseRaw) 0) =
     Inr sampleResponse"
  by (simp add: sampleDecode_def sampleResponseRaw_def
      sampleID_def sampleAttributes_def magicCookie_def classOf_def nth_append sampleResponse_def)

lemma sample_other_buffer:
  "sampleDecode (take 2000 sampleOtherIDRaw @ replicate (2000 - length sampleOtherIDRaw) 0) =
     Inr \<lparr>Class = ClassSuccessResponse,
          TransactionID = [1, 2, 3, 4, 5, 6, 7, 8, 9, 10, 11, 13],
          Attributes = sampleAttributes\<rparr>"
  by (simp add: sampleDecode_def sampleOtherIDRaw_def
      sampleAttributes_def magicCookie_def classOf_def nth_append)

lemma sample_fields:
  "Class sampleResponse = ClassSuccessResponse"
  "TransactionID sampleResponse = sampleID"
  "TransactionID sampleRequest = sampleID"
  by (simp_all add: sampleResponse_def sampleRequest_def)

lemma sample_address: "sampleGetFrom sampleResponse = Inr ''203.0.113.5:54321''"
  by (simp add: sampleGetFrom_def sampleResponse_def sampleAttributes_def showNat.simps)

lemma sample_truncated_address:
  "sampleGetFrom \<lparr>Class = ClassSuccessResponse, TransactionID = sampleID,
       Attributes = [0x00, 0x20, 0x00, 0x08, 0x00, 0x01, 0xF5, 0x23, 0, 0, 0, 0]\<rparr> =
     Inr ''33.18.164.66:54321''"
  by (simp add: sampleGetFrom_def showNat.simps)

section \<open>The claims\<close>

subsection \<open>C1: one outcome per configured endpoint\<close>

text \<open>
  Property X1, the UDP half of C1: a run of testUDP that gets to its loop appends one record
  per server, in the order of the list, whatever fails for a server.
\<close>

theorem udp_outcomes_in_order:
  "udpSetup e t = Some (req, raw) \<Longrightarrow>
   map STUNServerURL (stunResponses (snd (testUDP e t urls))) = urls"
proof -
  have "map (STUNServerURL \<circ> (\<lambda>(i, u). udpOutcome e req raw i u)) (enumerate n urls) = urls" for n
    by (induction urls arbitrary: n) (simp_all add: udpOutcome_eq)
  moreover assume "udpSetup e t = Some (req, raw)"
  ultimately show ?thesis
    by (simp add: responses_testUDP)
qed

text \<open>On the configured UDP list, with a first server that does not resolve: six records.\<close>

theorem udp_outcomes_in_order_witness:
  "udpSetup worldFirstUnresolved mainTimeout = Some (sampleRequest, sampleRequestRaw) \<and>
   map STUNServerURL
     (stunResponses (snd (testUDP worldFirstUnresolved mainTimeout stunServerURLsToTestUDP))) =
     stunServerURLsToTestUDP \<and>
   length (stunResponses (snd (testUDP worldFirstUnresolved mainTimeout stunServerURLsToTestUDP)))
     = 6"
proof -
  have u: "udpSetup worldFirstUnresolved mainTimeout = Some (sampleRequest, sampleRequestRaw)"
    by (simp add: udpSetup_def request_def worldFirstUnresolved_def worldOK_def)
  have m: "map STUNServerURL
     (stunResponses (snd (testUDP worldFirstUnresolved mainTimeout stunServerURLsToTestUDP))) =
     stunServerURLsToTestUDP"
    by (rule udp_outcomes_in_order [OF u])
  have "length (map STUNServerURL
     (stunResponses (snd (testUDP worldFirstUnresolved mainTimeout stunServerURLsToTestUDP)))) = 6"
    unfolding m by (simp add: stunServerURLsToTestUDP_def)
  then have "length
     (stunResponses (snd (testUDP worldFirstUnresolved mainTimeout stunServerURLsToTestUDP))) = 6"
    by (simp only: length_map)
  with u m show ?thesis
    by blast
qed

text \<open>
  Property X2: a run of testTCP that gets to its loop appends the records of the servers
  whose iteration got past the dial and the read deadline, in the order of the list, and
  no other.
\<close>

theorem tcp_outcomes_of_connected:
  "request e = Some (req, raw) \<Longrightarrow>
   map STUNServerURL (stunResponses (snd (testTCP e t urls))) =
     map snd (filter (\<lambda>(i, u). tcpConnected e t i u) (enumerate 0 urls))"
proof -
  have "map (STUNServerURL \<circ> (\<lambda>(i, u). tcpOutcome e t req raw i u))
          (filter (\<lambda>(i, u). tcpConnected e t i u) xs) =
        map snd (filter (\<lambda>(i, u). tcpConnected e t i u) xs)" for xs
    by (induction xs) (auto simp add: tcpOutcome_eq)
  moreover assume "request e = Some (req, raw)"
  ultimately show ?thesis
    by (simp add: responses_testTCP_served)
qed

text \<open>On a list of two servers that are both dialed, the first of which does not resolve.\<close>

theorem tcp_outcomes_of_connected_witness:
  "request worldFirstUnresolved = Some (sampleRequest, sampleRequestRaw) \<and>
   map STUNServerURL
     (stunResponses (snd (testTCP worldFirstUnresolved mainTimeout
        [''a.example:3478'', ''b.example:3478'']))) = [''a.example:3478'', ''b.example:3478'']"
  using tcp_outcomes_of_connected [where e = worldFirstUnresolved and t = mainTimeout
      and req = sampleRequest and raw = sampleRequestRaw
      and urls = "[''a.example:3478'', ''b.example:3478'']"]
  by (simp add: request_def tcpConnected_def worldFirstUnresolved_def worldOK_def mainTimeout_def)

text \<open>
  Claim C1: for every list of N endpoints and for both transports, a completed run appends
  exactly N records, one per endpoint and in the order of the list, whatever step failed.
  testTCP does not: it creates and appends the record only after the dial (and the read
  deadline), so the \<open>continue\<close> of a refused dial leaves no record. On the configured TCP
  list of one server, with the dial refused, the run completes without error and hands an
  empty batch to logSTUNResults.
\<close>

theorem tcp_dial_failure_drops_outcome:
  "length stunServerURLsToTestTCP = 1 \<and>
   fst (testTCP worldDialRefused mainTimeout stunServerURLsToTestTCP) = None \<and>
   stunResponses (snd (testTCP worldDialRefused mainTimeout stunServerURLsToTestTCP)) = [] \<and>
   trace (snd (testTCP worldDialRefused mainTimeout stunServerURLsToTestTCP)) =
     [StunBuild, MarshalBinary, Dial 0 ''tcp'' ''turn.viam.com:443'',
      Log ErrorLevel (Some ''turn.viam.com:443'') ''Error dialing STUN server via tcp'',
      LogSTUNResults []]"
  by (simp add: testTCP_def tcpIter_def worldDialRefused_def worldOK_def
      stunServerURLsToTestTCP_def Let_def init_def emit_def logAt_def)

subsection \<open>C2: when the mapped address and the duration are set\<close>

text \<open>
  Claim C2, as stated: the outcome's mappedAddress and roundTripDuration are set if and
  only if the received bytes decode to a STUN message of the success-response class, a
  mapped address is extractable from it and its transaction ID equals the request's; in
  that case roundTripDuration is positive.

  It fails in two places. Where only the first 28 bytes of the 32-byte success response
  for 203.0.113.5:54321 arrive, the received bytes do not decode (the header announces
  more bytes than there are), yet both runs set the mapped address: the decoder is given
  the whole buffer, whose zeros stand in for the missing address bytes, and the address
  recorded is 33.18.164.66:54321, which no server sent. And where the clock reads the same
  before the send and after the checks, the mapped address is set and the duration
  recorded is 0.
\<close>

theorem truncated_response_sets_mapped_address:
  "sampleTruncatedRaw = take 28 sampleResponseRaw \<and>
   fst (readFrom worldTruncated 0) = sampleTruncatedRaw \<and>
   fst (tcpRead worldTruncated 0) = sampleTruncatedRaw \<and>
   decode worldTruncated sampleResponseRaw = Inr sampleResponse \<and>
   getFrom worldTruncated sampleResponse = Inr ''203.0.113.5:54321'' \<and>
   decode worldTruncated sampleTruncatedRaw =
     Inl (Err ''buffer length is less than expected message size'') \<and>
   BindResponseAddr
     (stunResponses (snd (testUDP worldTruncated mainTimeout [''stun.example.com:3478''])) ! 0) =
     Some ''33.18.164.66:54321'' \<and>
   BindResponseAddr
     (stunResponses (snd (testTCP worldTruncated mainTimeout [''stun.example.com:3478''])) ! 0) =
     Some ''33.18.164.66:54321'' \<and>
   BindResponseAddr
     (stunResponses (snd (testUDP worldSameReading mainTimeout [''stun.example.com:3478''])) ! 0) =
     Some ''203.0.113.5:54321'' \<and>
   TimeToBindResponse
     (stunResponses (snd (testUDP worldSameReading mainTimeout [''stun.example.com:3478''])) ! 0) =
     Some 0"
proof -
  have u: "udpSetup worldTruncated mainTimeout = Some (sampleRequest, sampleRequestRaw)"
    by (simp add: udpSetup_def request_def worldTruncated_def worldCodec_def worldOK_def)
  have r: "request worldTruncated = Some (sampleRequest, sampleRequestRaw)"
    by (simp add: request_def worldTruncated_def worldCodec_def worldOK_def)
  have c: "tcpConnected worldTruncated mainTimeout 0 ''stun.example.com:3478''"
    by (simp add: tcpConnected_def worldTruncated_def worldCodec_def worldOK_def)
  have s: "udpSetup worldSameReading mainTimeout = Some (sampleRequest, sampleRequestRaw)"
    by (simp add: udpSetup_def request_def worldSameReading_def worldCodec_def worldOK_def)
  have U: "stunResponses (snd (testUDP worldTruncated mainTimeout [''stun.example.com:3478''])) =
      [udpOutcome worldTruncated sampleRequest sampleRequestRaw 0 ''stun.example.com:3478'']"
    by (simp add: responses_testUDP [OF u])
  have T: "stunResponses (snd (testTCP worldTruncated mainTimeout [''stun.example.com:3478''])) =
      [tcpOutcome worldTruncated mainTimeout sampleRequest sampleRequestRaw 0
         ''stun.example.com:3478'']"
    by (simp add: responses_testTCP_served [OF r] c)
  have S: "stunResponses (snd (testUDP worldSameReading mainTimeout [''stun.example.com:3478''])) =
      [udpOutcome worldSameReading sampleRequest sampleRequestRaw 0 ''stun.example.com:3478'']"
    by (simp add: responses_testUDP [OF s])
  have d: "sampleDecode sampleResponseRaw = Inr sampleResponse"
    by (simp add: sampleDecode_def sampleResponseRaw_def sampleID_def sampleAttributes_def
        magicCookie_def classOf_def sampleResponse_def)
  have t: "sampleTruncatedRaw = take 28 sampleResponseRaw"
    by (rule sampleTruncatedRaw_def)
  show ?thesis
    unfolding U T S
    by (simp add: d t [symmetric] udpOutcome_eq tcpOutcome_eq tcpConnected_def udpReceived_def tcpReceived_def
        acceptedAddr_def worldTruncated_def worldSameReading_def worldCodec_def worldOK_def
        sample_truncated_alone sample_truncated_buffer sample_whole_buffer sample_address
        sample_truncated_address sample_fields receiveInto_makeBuffer bufferSize_def)
qed

text \<open>
  A record whose two fields are what the iteration computes from the buffer it received,
  if it received one: the mapped address is \<open>a\<close> exactly when the response check
  accepts that buffer with the address \<open>a\<close>, and the duration is set exactly then.
\<close>

lemma accepted_from_buffer:
  assumes B: "BindResponseAddr r = (case rcv of None \<Rightarrow> None | Some buf \<Rightarrow> acceptedAddr e req buf)"
    and T: "TimeToBindResponse r =
          (case rcv of
             None \<Rightarrow> None
           | Some buf \<Rightarrow>
               (case acceptedAddr e req buf of None \<Rightarrow> None | Some a \<Rightarrow> Some (bindEnd e i - bindStart e i)))"
    and R: "\<And>buf. rcv = Some buf \<longleftrightarrow> Q buf"
  shows "(\<forall>a. BindResponseAddr r = Some a \<longleftrightarrow>
           (\<exists>buf m. Q buf \<and> decode e buf = Inr m \<and>
              Class m = ClassSuccessResponse \<and> getFrom e m = Inr a \<and>
              TransactionID m = TransactionID req)) \<and>
         TimeToBindResponse r =
           (if BindResponseAddr r = None then None else Some (bindEnd e i - bindStart e i))"
proof (intro conjI allI)
  fix a
  have "BindResponseAddr r = Some a \<longleftrightarrow> (\<exists>buf. rcv = Some buf \<and> acceptedAddr e req buf = Some a)"
    using B by (cases rcv) simp_all
  then show "BindResponseAddr r = Some a \<longleftrightarrow>
           (\<exists>buf m. Q buf \<and> decode e buf = Inr m \<and>
              Class m = ClassSuccessResponse \<and> getFrom e m = Inr a \<and>
              TransactionID m = TransactionID req)"
    unfolding R acceptedAddr_iff by blast
  show "TimeToBindResponse r =
           (if BindResponseAddr r = None then None else Some (bindEnd e i - bindStart e i))"
    using B T by (auto split: option.splits)
qed

text \<open>
  Claim C2, amended: for the record of server \<open>i\<close> of a UDP run, and for the record at
  position \<open>k\<close> of a TCP run (the record of the \<open>k\<close>-th server that got past the dial
  and the read deadline), BindResponseAddr is \<open>Some a\<close> if and only if the address
  resolved, the whole request was written, the receive returned bytes \<open>dat\<close> without
  error, and the receive buffer, that is \<open>dat\<close> cut to 2000 bytes and followed by zeros
  up to 2000 bytes, decodes to a message of the success-response class from which the
  address \<open>a\<close> is extracted and whose transaction ID is the request's. In every other
  case BindResponseAddr stays unset. TimeToBindResponse is set exactly when
  BindResponseAddr is, to the clock reading taken after the checks minus the reading taken
  before the send; nothing makes it positive but the clock.
\<close>

theorem mapped_address_iff_buffer_accepted:
  "(udpSetup e t = Some (req, raw) \<and> i < length urls \<longrightarrow>
     (let r = stunResponses (snd (testUDP e t urls)) ! i in
        (\<forall>a. BindResponseAddr r = Some a \<longleftrightarrow>
           (\<exists>addr dat src m.
              resolveUDPAddr e i ''udp4'' (urls ! i) = Inr addr \<and>
              writeTo e i raw addr = (int (length raw), None) \<and>
              readFrom e i = (dat, src, None) \<and>
              decode e (take 2000 dat @ replicate (2000 - length dat) 0) = Inr m \<and>
              Class m = ClassSuccessResponse \<and> getFrom e m = Inr a \<and>
              TransactionID m = TransactionID req)) \<and>
        TimeToBindResponse r =
          (if BindResponseAddr r = None then None else Some (bindEnd e i - bindStart e i)))) \<and>
   (request e = Some (req, raw) \<and>
    k < length (filter (\<lambda>(j, u). tcpConnected e t j u) (enumerate 0 urls)) \<longrightarrow>
     (let (j, u) = filter (\<lambda>(j, u). tcpConnected e t j u) (enumerate 0 urls) ! k;
          r = stunResponses (snd (testTCP e t urls)) ! k in
        (\<forall>a. BindResponseAddr r = Some a \<longleftrightarrow>
           (\<exists>addr dat m.
              resolveTCPAddr e j ''tcp'' u = Inr addr \<and>
              tcpWrite e j raw = (int (length raw), None) \<and>
              tcpRead e j = (dat, None) \<and>
              decode e (take 2000 dat @ replicate (2000 - length dat) 0) = Inr m \<and>
              Class m = ClassSuccessResponse \<and> getFrom e m = Inr a \<and>
              TransactionID m = TransactionID req)) \<and>
        TimeToBindResponse r =
          (if BindResponseAddr r = None then None else Some (bindEnd e j - bindStart e j))))"
proof (intro conjI impI)
  assume h: "udpSetup e t = Some (req, raw) \<and> i < length urls"
  then have r: "stunResponses (snd (testUDP e t urls)) ! i = udpOutcome e req raw i (urls ! i)"
    by (simp add: udp_nth_outcome)
  have "(\<forall>a. BindResponseAddr (udpOutcome e req raw i (urls ! i)) = Some a \<longleftrightarrow>
           (\<exists>buf m.
              (\<exists>addr dat src.
                 resolveUDPAddr e i ''udp4'' (urls ! i) = Inr addr \<and>
                 writeTo e i raw addr = (int (length raw), None) \<and>
                 readFrom e i = (dat, src, None) \<and>
                 buf = take 2000 dat @ replicate (2000 - length dat) 0) \<and>
              decode e buf = Inr m \<and>
              Class m = ClassSuccessResponse \<and> getFrom e m = Inr a \<and>
              TransactionID m = TransactionID req)) \<and>
        TimeToBindResponse (udpOutcome e req raw i (urls ! i)) =
          (if BindResponseAddr (udpOutcome e req raw i (urls ! i)) = None then None
           else Some (bindEnd e i - bindStart e i))"
    by (rule accepted_from_buffer [where rcv = "udpReceived e raw i (urls ! i)"])
      (simp_all add: udpOutcome_eq udpReceived_iff)
  then show "let r = stunResponses (snd (testUDP e t urls)) ! i in
        (\<forall>a. BindResponseAddr r = Some a \<longleftrightarrow>
           (\<exists>addr dat src m.
              resolveUDPAddr e i ''udp4'' (urls ! i) = Inr addr \<and>
              writeTo e i raw addr = (int (length raw), None) \<and>
              readFrom e i = (dat, src, None) \<and>
              decode e (take 2000 dat @ replicate (2000 - length dat) 0) = Inr m \<and>
              Class m = ClassSuccessResponse \<and> getFrom e m = Inr a \<and>
              TransactionID m = TransactionID req)) \<and>
        TimeToBindResponse r =
          (if BindResponseAddr r = None then None else Some (bindEnd e i - bindStart e i))"
    unfolding Let_def r by blast
next
  let ?served = "filter (\<lambda>(j, u). tcpConnected e t j u) (enumerate 0 urls)"
  assume h: "request e = Some (req, raw) \<and> k < length ?served"
  obtain j u where ju: "?served ! k = (j, u)"
    by (cases "?served ! k")
  from h have "?served ! k \<in> set ?served"
    by (simp only: nth_mem)
  with ju have c: "tcpConnected e t j u"
    by simp
  from h ju have r: "stunResponses (snd (testTCP e t urls)) ! k = tcpOutcome e t req raw j u"
    by (simp add: responses_testTCP_served)
  have "(\<forall>a. BindResponseAddr (tcpOutcome e t req raw j u) = Some a \<longleftrightarrow>
           (\<exists>buf m.
              (\<exists>addr dat.
                 resolveTCPAddr e j ''tcp'' u = Inr addr \<and>
                 tcpWrite e j raw = (int (length raw), None) \<and>
                 tcpRead e j = (dat, None) \<and>
                 buf = take 2000 dat @ replicate (2000 - length dat) 0) \<and>
              decode e buf = Inr m \<and>
              Class m = ClassSuccessResponse \<and> getFrom e m = Inr a \<and>
              TransactionID m = TransactionID req)) \<and>
        TimeToBindResponse (tcpOutcome e t req raw j u) =
          (if BindResponseAddr (tcpOutcome e t req raw j u) = None then None
           else Some (bindEnd e j - bindStart e j))"
    by (rule accepted_from_buffer [where rcv = "tcpReceived e t raw j u"])
      (simp_all add: tcpOutcome_eq [OF c] tcpReceived_iff [OF c])
  then have "(\<forall>a. BindResponseAddr (tcpOutcome e t req raw j u) = Some a \<longleftrightarrow>
           (\<exists>addr dat m.
              resolveTCPAddr e j ''tcp'' u = Inr addr \<and>
              tcpWrite e j raw = (int (length raw), None) \<and>
              tcpRead e j = (dat, None) \<and>
              decode e (take 2000 dat @ replicate (2000 - length dat) 0) = Inr m \<and>
              Class m = ClassSuccessResponse \<and> getFrom e m = Inr a \<and>
              TransactionID m = TransactionID req)) \<and>
        TimeToBindResponse (tcpOutcome e t req raw j u) =
          (if BindResponseAddr (tcpOutcome e t req raw j u) = None then None
           else Some (bindEnd e j - bindStart e j))"
    by blast
  then show "let (j, u) = ?served ! k;
          r = stunResponses (snd (testTCP e t urls)) ! k in
        (\<forall>a. BindResponseAddr r = Some a \<longleftrightarrow>
           (\<exists>addr dat m.
              resolveTCPAddr e j ''tcp'' u = Inr addr \<and>
              tcpWrite e j raw = (int (length raw), None) \<and>
              tcpRead e j = (dat, None) \<and>
              decode e (take 2000 dat @ replicate (2000 - length dat) 0) = Inr m \<and>
              Class m = ClassSuccessResponse \<and> getFrom e m = Inr a \<and>
              TransactionID m = TransactionID req)) \<and>
        TimeToBindResponse r =
          (if BindResponseAddr r = None then None else Some (bindEnd e j - bindStart e j))"
    unfolding Let_def ju r by simp
qed

text \<open>
  The amended claim in a world whose codec reads the buffer: at a server that answers with
  the whole success response 150 ns after the send, the mapped address 203.0.113.5:54321
  and the duration are set, on both transports; at a server that answers with the
  transaction ID of another request, the mapped address is not set.
\<close>

theorem mapped_address_iff_buffer_accepted_witness:
  "udpSetup worldCodec mainTimeout = Some (sampleRequest, sampleRequestRaw) \<and>
   BindResponseAddr
     (stunResponses (snd (testUDP worldCodec mainTimeout [''stun.example.com:3478''])) ! 0) =
     Some ''203.0.113.5:54321'' \<and>
   TimeToBindResponse
     (stunResponses (snd (testUDP worldCodec mainTimeout [''stun.example.com:3478''])) ! 0) =
     Some 150 \<and>
   BindResponseAddr
     (stunResponses (snd (testTCP worldCodec mainTimeout [''stun.example.com:3478''])) ! 0) =
     Some ''203.0.113.5:54321'' \<and>
   TimeToBindResponse
     (stunResponses (snd (testTCP worldCodec mainTimeout [''stun.example.com:3478''])) ! 0) =
     Some 150 \<and>
   BindResponseAddr
     (stunResponses (snd (testUDP worldOtherID mainTimeout [''stun.example.com:3478''])) ! 0) =
     None"
proof -
  have u: "udpSetup worldCodec mainTimeout = Some (sampleRequest, sampleRequestRaw)"
    by (simp add: udpSetup_def request_def worldCodec_def worldOK_def)
  have "\<forall>a. BindResponseAddr
          (stunResponses (snd (testUDP worldOtherID mainTimeout [''stun.example.com:3478''])) ! 0)
        \<noteq> Some a"
    using mapped_address_iff_buffer_accepted [where e = worldOtherID and t = mainTimeout
      and req = sampleRequest and raw = sampleRequestRaw and i = 0 and k = 0
      and urls = "[''stun.example.com:3478'']"]
    by (simp add: Let_def udpSetup_def request_def worldOtherID_def worldCodec_def worldOK_def
        sample_other_buffer sample_fields sampleID_def mainTimeout_def)
  then have "BindResponseAddr
      (stunResponses (snd (testUDP worldOtherID mainTimeout [''stun.example.com:3478''])) ! 0) =
      None"
    by simp
  with u show ?thesis
    using mapped_address_iff_buffer_accepted [where e = worldCodec and t = mainTimeout
      and req = sampleRequest and raw = sampleRequestRaw and i = 0 and k = 0
      and urls = "[''stun.example.com:3478'']"]
    by (simp add: Let_def request_def tcpConnected_def worldCodec_def worldOK_def
        sample_whole_buffer sample_fields sample_address mainTimeout_def)
qed

subsection \<open>C3: failure isolation\<close>

text \<open>
  Claim C3: for every server, a failure at any per-server step (resolution, send, short
  write, receive, decode, response classification, address extraction or transaction-ID
  check) is logged and control advances to the next server; no per-server failure aborts
  the batch or makes the run return an error, so whether the later servers are attempted
  does not depend on the failure of an earlier one.

  Once the prelude of a run has succeeded, and whatever the per-server calls return: the
  run returns no error; the attempts found in the trace (the resolve calls of testUDP, the
  dials of testTCP) are the servers of the list, all of them and in order; and the servers
  named by the error-level log entries are, in order, exactly the servers whose probe
  failed, that is, got no buffer or had its buffer rejected by the response check.
\<close>

theorem failure_isolation:
  "(udpSetup e t = Some (req, raw) \<longrightarrow>
      fst (testUDP e t urls) = None \<and>
      filter isResolve (trace (snd (testUDP e t urls))) = map (ResolveUDPAddr ''udp4'') urls \<and>
      errorLogURLs (trace (snd (testUDP e t urls))) =
        map snd (filter (\<lambda>(i, u). probeFailed e req (udpReceived e raw i u)) (enumerate 0 urls))) \<and>
   (request e = Some (req, raw) \<longrightarrow>
      fst (testTCP e t urls) = None \<and>
      filter isDial (trace (snd (testTCP e t urls))) =
        map (\<lambda>(i, u). Dial i ''tcp'' u) (enumerate 0 urls) \<and>
      errorLogURLs (trace (snd (testTCP e t urls))) =
        map snd (filter (\<lambda>(i, u). probeFailed e req (tcpReceived e t raw i u)) (enumerate 0 urls)))"
proof (intro conjI impI)
  assume h: "udpSetup e t = Some (req, raw)"
  then show "fst (testUDP e t urls) = None"
    by (simp add: fst_testUDP)
  show "filter isResolve (trace (snd (testUDP e t urls))) = map (ResolveUDPAddr ''udp4'') urls"
    by (simp add: trace_testUDP [OF h] filter_concat_enumerate isResolve_udpEvents
        concat_map_enumerate_single map_snd_enumerate)
  show "errorLogURLs (trace (snd (testUDP e t urls))) =
        map snd (filter (\<lambda>(i, u). probeFailed e req (udpReceived e raw i u)) (enumerate 0 urls))"
    by (simp add: trace_testUDP [OF h] errorLogURLs_concat_enumerate errorLogURLs_udpEvents
        concat_map_enumerate_if)
next
  assume h: "request e = Some (req, raw)"
  then show "fst (testTCP e t urls) = None"
    by (simp add: fst_testTCP)
  show "filter isDial (trace (snd (testTCP e t urls))) =
        map (\<lambda>(i, u). Dial i ''tcp'' u) (enumerate 0 urls)"
    by (simp add: trace_testTCP [OF h] filter_concat_enumerate isDial_tcpEvents
        concat_map_enumerate_single)
  show "errorLogURLs (trace (snd (testTCP e t urls))) =
        map snd (filter (\<lambda>(i, u). probeFailed e req (tcpReceived e t raw i u)) (enumerate 0 urls))"
    by (simp add: trace_testTCP [OF h] errorLogURLs_concat_enumerate errorLogURLs_tcpEvents
        concat_map_enumerate_if)
qed

text \<open>
  The claim on a list of two servers of which the first does not resolve: both are
  attempted, on both transports, and the one error logged names the first.
\<close>

theorem failure_isolation_witness:
  "udpSetup worldFirstUnresolved mainTimeout = Some (sampleRequest, sampleRequestRaw) \<and>
   fst (testUDP worldFirstUnresolved mainTimeout [''a.example:3478'', ''b.example:3478'']) = None \<and>
   filter isResolve
     (trace (snd (testUDP worldFirstUnresolved mainTimeout [''a.example:3478'', ''b.example:3478'']))) =
     [ResolveUDPAddr ''udp4'' ''a.example:3478'', ResolveUDPAddr ''udp4'' ''b.example:3478''] \<and>
   errorLogURLs
     (trace (snd (testUDP worldFirstUnresolved mainTimeout [''a.example:3478'', ''b.example:3478'']))) =
     [''a.example:3478''] \<and>
   fst (testTCP worldFirstUnresolved mainTimeout [''a.example:3478'', ''b.example:3478'']) = None \<and>
   filter isDial
     (trace (snd (testTCP worldFirstUnresolved mainTimeout [''a.example:3478'', ''b.example:3478'']))) =
     [Dial 0 ''tcp'' ''a.example:3478'', Dial 1 ''tcp'' ''b.example:3478''] \<and>
   errorLogURLs
     (trace (snd (testTCP worldFirstUnresolved mainTimeout [''a.example:3478'', ''b.example:3478'']))) =
     [''a.example:3478'']"
  using failure_isolation [where e = worldFirstUnresolved and t = mainTimeout
      and req = sampleRequest and raw = sampleRequestRaw
      and urls = "[''a.example:3478'', ''b.example:3478'']"]
  by (simp add: udpSetup_def request_def probeFailed_def acceptedAddr_def udpReceived_def
      tcpReceived_def tcpConnected_def worldFirstUnresolved_def worldOK_def mainTimeout_def
      sampleRequest_def sampleResponse_def sampleID_def)

subsection \<open>C4: which failures are fatal\<close>

text \<open>
  Claim C4, as stated: only a failure to open the first channel of a run, or to arm its
  deadline, makes the run return an error. It fails where the codec cannot build the
  request: the listen and the deadline succeed, and both runs return the error of
  stun.Build, which main turns into a panic.
\<close>

theorem build_failure_is_fatal:
  "listenPacket worldBuildFails = None \<and>
   setDeadline worldBuildFails (timeNow worldBuildFails + mainTimeout) = None \<and>
   fst (testUDP worldBuildFails mainTimeout stunServerURLsToTestUDP) =
     Some (Err ''read of random bytes failed'') \<and>
   fst (testTCP worldBuildFails mainTimeout stunServerURLsToTestTCP) =
     Some (Err ''read of random bytes failed'') \<and>
   main worldBuildFails worldBuildFails = Some (Err ''read of random bytes failed'')"
  by (simp add: testUDP_def testTCP_def main_def worldBuildFails_def worldOK_def Let_def
      mainTimeout_def)

text \<open>
  Claim C4, amended: testUDP returns an error exactly when the listen fails, or the
  timeout is positive and SetDeadline fails, or the request cannot be built or
  serialised; testTCP returns an error exactly when the request cannot be built or
  serialised (a failed dial or read deadline of any server, the first included, is
  not an error of the run); main panics exactly when one of the two runs returns an
  error. No result of a per-server call appears in the conditions.
\<close>

theorem run_error_iff_setup_failure:
  "(fst (testUDP e t urls) = None \<longleftrightarrow>
      listenPacket e = None \<and>
      (0 < t \<longrightarrow> setDeadline e (timeNow e + t) = None) \<and>
      (\<exists>req raw. build e = Inr req \<and> marshalBinary e req = Inr raw)) \<and>
   (fst (testTCP e t urls) = None \<longleftrightarrow>
      (\<exists>req raw. build e = Inr req \<and> marshalBinary e req = Inr raw)) \<and>
   (main eu et = None \<longleftrightarrow>
      fst (testUDP eu mainTimeout stunServerURLsToTestUDP) = None \<and>
      fst (testTCP et mainTimeout stunServerURLsToTestTCP) = None)"
proof (intro conjI)
  show "fst (testUDP e t urls) = None \<longleftrightarrow>
      listenPacket e = None \<and>
      (0 < t \<longrightarrow> setDeadline e (timeNow e + t) = None) \<and>
      (\<exists>req raw. build e = Inr req \<and> marshalBinary e req = Inr raw)"
    by (simp only: fst_testUDP udpSetup_Some_iff request_Some_iff)
  show "fst (testTCP e t urls) = None \<longleftrightarrow>
      (\<exists>req raw. build e = Inr req \<and> marshalBinary e req = Inr raw)"
    by (simp only: fst_testTCP request_Some_iff)
  show "main eu et = None \<longleftrightarrow>
      fst (testUDP eu mainTimeout stunServerURLsToTestUDP) = None \<and>
      fst (testTCP et mainTimeout stunServerURLsToTestTCP) = None"
    by (rule main_None_iff)
qed

text \<open>
  The amended claim at a world where every dial is refused (no run returns an error, main
  does not panic) and at one where the request cannot be built (testTCP returns an error).
\<close>

theorem run_error_iff_setup_failure_witness:
  "fst (testUDP worldDialRefused mainTimeout stunServerURLsToTestUDP) = None \<and>
   fst (testTCP worldDialRefused mainTimeout stunServerURLsToTestTCP) = None \<and>
   main worldDialRefused worldDialRefused = None \<and>
   fst (testTCP worldBuildFails mainTimeout stunServerURLsToTestTCP) \<noteq> None"
  using run_error_iff_setup_failure [where e = worldDialRefused and t = mainTimeout
      and urls = stunServerURLsToTestUDP and eu = worldDialRefused and et = worldDialRefused]
    run_error_iff_setup_failure [where e = worldDialRefused and t = mainTimeout
      and urls = stunServerURLsToTestTCP]
    run_error_iff_setup_failure [where e = worldBuildFails and t = mainTimeout
      and urls = stunServerURLsToTestTCP]
  by (simp add: worldDialRefused_def worldBuildFails_def worldOK_def mainTimeout_def)

subsection \<open>C5: when the TCP connections are closed\<close>

text \<open>
  Claim C5, as stated: the connection opened for a server is closed before or shortly
  after that server's outcome is finalized, so that no earlier server's connection is
  open while a later server is probed. It fails on a list of two servers that both
  answer: the close is deferred to the return of testTCP, so connection 0 is still open
  while server 1 is dialed, written to and read from, and is closed last.
\<close>

theorem tcp_earlier_connection_still_open:
  "filter isConnectionEvent
     (trace (snd (testTCP worldOK mainTimeout [''a.example:3478'', ''b.example:3478'']))) =
     [Dial 0 ''tcp'' ''a.example:3478'', TCPWrite 0 sampleRequestRaw, TCPRead 0 2000,
      Dial 1 ''tcp'' ''b.example:3478'', TCPWrite 1 sampleRequestRaw, TCPRead 1 2000,
      TCPClose 1, TCPClose 0]"
proof -
  have "request worldOK = Some (sampleRequest, sampleRequestRaw)"
    by (simp add: request_def worldOK_def)
  then show ?thesis
    by (simp add: trace_testTCP tcpEvents_eq checkEvents_eq worldOK_def mainTimeout_def
        bufferSize_def sampleRequest_def sampleResponse_def)
qed

text \<open>
  Claim C5, amended: every connection that was dialed is closed exactly once, when testTCP
  returns: the closes are the last events of the run, after the batch has been handed to
  logSTUNResults, and they run in the reverse order of the dials. The connections of
  earlier servers stay open while later servers are probed.
\<close>

theorem tcp_connections_closed_at_return:
  "request e = Some (req, raw) \<Longrightarrow>
   (let dialed = map fst (filter (\<lambda>(i, u). dial e i ''tcp'' u = None) (enumerate 0 urls));
        tr = trace (snd (testTCP e t urls)) in
      filter isClose tr = map TCPClose (rev dialed) \<and>
      drop (length tr - Suc (length dialed)) tr =
        LogSTUNResults (stunResponses (snd (testTCP e t urls))) # map TCPClose (rev dialed))"
proof -
  assume h: "request e = Some (req, raw)"
  let ?dialed = "map fst (filter (\<lambda>(i, u). dial e i ''tcp'' u = None) (enumerate 0 urls))"
  let ?pre = "[StunBuild, MarshalBinary] @
     concat (map (\<lambda>(i, u). tcpEvents e t req raw i u) (enumerate 0 urls))"
  let ?post = "LogSTUNResults (stunResponses (snd (testTCP e t urls))) # map TCPClose (rev ?dialed)"
  have tr: "trace (snd (testTCP e t urls)) = ?pre @ ?post"
    by (simp add: trace_testTCP [OF h] responses_testTCP [OF h])
  have "filter isClose (?pre @ ?post) = map TCPClose (rev ?dialed)"
    by (simp add: isClose_tcp_segments)
  moreover have "drop (length (?pre @ ?post) - Suc (length ?dialed)) (?pre @ ?post) = ?post"
    by simp
  ultimately show ?thesis
    unfolding Let_def tr by blast
qed

text \<open>
  The amended claim on a list of two servers, the first of which is dialed but does not
  resolve: both connections are closed, the second first.
\<close>

theorem tcp_connections_closed_at_return_witness:
  "request worldFirstUnresolved = Some (sampleRequest, sampleRequestRaw) \<and>
   filter isClose
     (trace (snd (testTCP worldFirstUnresolved mainTimeout [''a.example:3478'', ''b.example:3478'']))) =
     [TCPClose 1, TCPClose 0]"
  using tcp_connections_closed_at_return [where e = worldFirstUnresolved and t = mainTimeout
      and req = sampleRequest and raw = sampleRequestRaw
      and urls = "[''a.example:3478'', ''b.example:3478'']"]
  by (simp add: request_def worldFirstUnresolved_def worldOK_def Let_def)

subsection \<open>C6: one request for all servers\<close>

text \<open>
  Claim C6: for each transport run, exactly one binding request is built (with one
  transaction ID) and serialised once before the loop, and the same serialised bytes are
  the payload sent to every server of the list; no request is built per server.

  In a run that gets to its loop, the events that build, serialise or send a request are:
  one build, then one serialisation, then only sends, each with the bytes \<open>raw\<close> that
  the one serialisation of the one request returned: for testUDP one WriteTo to every
  server that resolved, for testTCP one Write on every connection that was dialed, got its
  read deadline and resolved.
\<close>

theorem one_request_for_all_servers:
  "(udpSetup e t = Some (req, raw) \<longrightarrow>
      build e = Inr req \<and> marshalBinary e req = Inr raw \<and>
      filter isRequestEvent (trace (snd (testUDP e t urls))) =
        StunBuild # MarshalBinary #
        map (\<lambda>(i, u). WriteTo raw (projr (resolveUDPAddr e i ''udp4'' u)))
          (filter (\<lambda>(i, u). \<not> isl (resolveUDPAddr e i ''udp4'' u)) (enumerate 0 urls))) \<and>
   (request e = Some (req, raw) \<longrightarrow>
      build e = Inr req \<and> marshalBinary e req = Inr raw \<and>
      filter isRequestEvent (trace (snd (testTCP e t urls))) =
        StunBuild # MarshalBinary #
        map (\<lambda>(i, u). TCPWrite i raw)
          (filter (\<lambda>(i, u). tcpConnected e t i u \<and> \<not> isl (resolveTCPAddr e i ''tcp'' u))
             (enumerate 0 urls)))"
proof (intro conjI impI)
  assume h: "udpSetup e t = Some (req, raw)"
  then have r: "request e = Some (req, raw)"
    by (simp add: udpSetup_def split: option.splits if_splits)
  from r show "build e = Inr req" "marshalBinary e req = Inr raw"
    by (auto simp add: request_def split: sum.splits)
  show "filter isRequestEvent (trace (snd (testUDP e t urls))) =
        StunBuild # MarshalBinary #
        map (\<lambda>(i, u). WriteTo raw (projr (resolveUDPAddr e i ''udp4'' u)))
          (filter (\<lambda>(i, u). \<not> isl (resolveUDPAddr e i ''udp4'' u)) (enumerate 0 urls))"
    by (simp add: trace_testUDP [OF h] isRequestEvent_udp_segments)
next
  assume r: "request e = Some (req, raw)"
  then show "build e = Inr req" "marshalBinary e req = Inr raw"
    by (auto simp add: request_def split: sum.splits)
  show "filter isRequestEvent (trace (snd (testTCP e t urls))) =
        StunBuild # MarshalBinary #
        map (\<lambda>(i, u). TCPWrite i raw)
          (filter (\<lambda>(i, u). tcpConnected e t i u \<and> \<not> isl (resolveTCPAddr e i ''tcp'' u))
             (enumerate 0 urls))"
    by (simp add: trace_testTCP [OF r] isRequestEvent_tcp_segments)
qed

text \<open>
  The claim on a UDP list of three servers whose first does not resolve (two sends of the
  same bytes) and on a TCP list of two servers (one send per connection, the same bytes).
\<close>

theorem one_request_for_all_servers_witness:
  "udpSetup worldFirstUnresolved mainTimeout = Some (sampleRequest, sampleRequestRaw) \<and>
   filter isRequestEvent
     (trace (snd (testUDP worldFirstUnresolved mainTimeout
        [''a.example:3478'', ''b.example:3478'', ''c.example:3478'']))) =
     [StunBuild, MarshalBinary, WriteTo sampleRequestRaw ''192.0.2.10:3478'',
      WriteTo sampleRequestRaw ''192.0.2.10:3478''] \<and>
   filter isRequestEvent
     (trace (snd (testTCP worldOK mainTimeout [''a.example:3478'', ''b.example:3478'']))) =
     [StunBuild, MarshalBinary, TCPWrite 0 sampleRequestRaw, TCPWrite 1 sampleRequestRaw]"
  using one_request_for_all_servers [where e = worldFirstUnresolved and t = mainTimeout
      and req = sampleRequest and raw = sampleRequestRaw
      and urls = "[''a.example:3478'', ''b.example:3478'', ''c.example:3478'']"]
    one_request_for_all_servers [where e = worldOK and t = mainTimeout
      and req = sampleRequest and raw = sampleRequestRaw
      and urls = "[''a.example:3478'', ''b.example:3478'']"]
  by (simp add: udpSetup_def request_def tcpConnected_def worldFirstUnresolved_def worldOK_def
      mainTimeout_def)

subsection \<open>C7: the deadline and the timeout\<close>

text \<open>
  Claim C7: if the configured timeout is 0, no deadline is armed on any channel (the
  SetDeadline of the UDP socket and the SetReadDeadline of each TCP connection are
  skipped); if the timeout is positive, a deadline of now + timeout is armed, once for the
  whole UDP batch and afresh on every TCP connection after its dial.

  With a timeout that is not positive, no run makes a deadline call. With a positive
  timeout, a testUDP whose listen succeeded makes exactly one, SetDeadline of the clock
  reading plus the timeout, as its second call, before any server is probed; and in a
  testTCP that gets to its loop every dial that succeeds is followed at once by the
  SetReadDeadline of that connection, at that iteration's clock reading plus the timeout,
  and there is no other deadline call. That a read without a deadline may block is outside
  the model.
\<close>

theorem deadline_armed_iff_timeout_positive:
  "(t \<le> 0 \<longrightarrow>
      filter isDeadline (trace (snd (testUDP e t urls))) = [] \<and>
      filter isDeadline (trace (snd (testTCP e t urls))) = []) \<and>
   (0 < t \<and> listenPacket e = None \<longrightarrow>
      filter isDeadline (trace (snd (testUDP e t urls))) = [SetDeadline (timeNow e + t)] \<and>
      take 2 (trace (snd (testUDP e t urls))) =
        [ListenPacket ''udp'' ''0.0.0.0:0'', SetDeadline (timeNow e + t)]) \<and>
   (0 < t \<and> request e = Some (req, raw) \<longrightarrow>
      filter isDialOrDeadline (trace (snd (testTCP e t urls))) =
        concat (map (\<lambda>(i, u). if dial e i ''tcp'' u = None
                              then [Dial i ''tcp'' u, SetReadDeadline i (deadlineNow e i + t)]
                              else [Dial i ''tcp'' u])
                  (enumerate 0 urls)))"
proof (intro conjI impI)
  assume "t \<le> 0"
  then show "filter isDeadline (trace (snd (testUDP e t urls))) = []"
    and "filter isDeadline (trace (snd (testTCP e t urls))) = []"
    by (simp_all add: isDeadline_testUDP isDeadline_testTCP)
next
  assume "0 < t \<and> listenPacket e = None"
  then show "filter isDeadline (trace (snd (testUDP e t urls))) = [SetDeadline (timeNow e + t)]"
    and "take 2 (trace (snd (testUDP e t urls))) =
        [ListenPacket ''udp'' ''0.0.0.0:0'', SetDeadline (timeNow e + t)]"
    by (simp_all add: isDeadline_testUDP take2_testUDP)
next
  assume h: "0 < t \<and> request e = Some (req, raw)"
  have "(\<lambda>(i, u). Dial i ''tcp'' u #
            (if 0 < t \<and> dial e i ''tcp'' u = None
             then [SetReadDeadline i (deadlineNow e i + t)] else [])) =
        (\<lambda>(i, u). if dial e i ''tcp'' u = None
                   then [Dial i ''tcp'' u, SetReadDeadline i (deadlineNow e i + t)]
                   else [Dial i ''tcp'' u])"
    using h by (auto simp add: fun_eq_iff)
  with h show "filter isDialOrDeadline (trace (snd (testTCP e t urls))) =
        concat (map (\<lambda>(i, u). if dial e i ''tcp'' u = None
                              then [Dial i ''tcp'' u, SetReadDeadline i (deadlineNow e i + t)]
                              else [Dial i ''tcp'' u])
                  (enumerate 0 urls))"
    by (simp add: isDialOrDeadline_testTCP)
qed

text \<open>
  The claim on the configured lists, with the timeout 0 and with the 10 seconds of main
  (the clock of the sample world reads 1000 ns at the UDP deadline and 1500 ns at the TCP
  one).
\<close>

theorem deadline_armed_iff_timeout_positive_witness:
  "filter isDeadline (trace (snd (testUDP worldOK 0 stunServerURLsToTestUDP))) = [] \<and>
   filter isDeadline (trace (snd (testTCP worldOK 0 stunServerURLsToTestTCP))) = [] \<and>
   filter isDeadline (trace (snd (testUDP worldOK mainTimeout stunServerURLsToTestUDP))) =
     [SetDeadline 10000001000] \<and>
   filter isDialOrDeadline (trace (snd (testTCP worldOK mainTimeout stunServerURLsToTestTCP))) =
     [Dial 0 ''tcp'' ''turn.viam.com:443'', SetReadDeadline 0 10000001500]"
  using deadline_armed_iff_timeout_positive [where e = worldOK and t = 0
      and urls = stunServerURLsToTestUDP]
    deadline_armed_iff_timeout_positive [where e = worldOK and t = 0
      and urls = stunServerURLsToTestTCP]
    deadline_armed_iff_timeout_positive [where e = worldOK and t = mainTimeout
      and urls = stunServerURLsToTestUDP]
    deadline_armed_iff_timeout_positive [where e = worldOK and t = mainTimeout
      and req = sampleRequest and raw = sampleRequestRaw and urls = stunServerURLsToTestTCP]
  by (simp add: request_def worldOK_def mainTimeout_def stunServerURLsToTestTCP_def)

subsection \<open>C8: the address family of the resolution\<close>

text \<open>
  Claim C8, as stated: resolving a configured endpoint does not restrict the address
  family, so an endpoint that resolves only to an IPv6 address is handled the same way on
  both transports. It fails for such an endpoint: the same resolver answers both runs;
  testUDP asks it for the network udp4, gets an error and leaves the record without a
  server address and without a mapped address, while testTCP asks for the network tcp,
  gets the IPv6 address and completes the probe.
\<close>

theorem udp_resolution_is_ipv4_only:
  "resolveUDPAddr worldIPv6Only = resolveTCPAddr worldIPv6Only \<and>
   STUNServerAddr (stunResponses (snd (testUDP worldIPv6Only mainTimeout [''v6.example:3478''])) ! 0)
     = None \<and>
   BindResponseAddr (stunResponses (snd (testUDP worldIPv6Only mainTimeout [''v6.example:3478''])) ! 0)
     = None \<and>
   STUNServerAddr (stunResponses (snd (testTCP worldIPv6Only mainTimeout [''v6.example:3478''])) ! 0)
     = Some ''[2001:db8::10]:3478'' \<and>
   BindResponseAddr (stunResponses (snd (testTCP worldIPv6Only mainTimeout [''v6.example:3478''])) ! 0)
     = Some ''203.0.113.5:54321''"
proof -
  have u: "udpSetup worldIPv6Only mainTimeout = Some (sampleRequest, sampleRequestRaw)"
    by (simp add: udpSetup_def request_def worldIPv6Only_def worldOK_def)
  have r: "request worldIPv6Only = Some (sampleRequest, sampleRequestRaw)"
    by (simp add: request_def worldIPv6Only_def worldOK_def)
  have c: "tcpConnected worldIPv6Only mainTimeout 0 ''v6.example:3478''"
    by (simp add: tcpConnected_def worldIPv6Only_def worldOK_def)
  have U: "stunResponses (snd (testUDP worldIPv6Only mainTimeout [''v6.example:3478''])) =
      [udpOutcome worldIPv6Only sampleRequest sampleRequestRaw 0 ''v6.example:3478'']"
    by (simp add: responses_testUDP [OF u])
  have T: "stunResponses (snd (testTCP worldIPv6Only mainTimeout [''v6.example:3478''])) =
      [tcpOutcome worldIPv6Only mainTimeout sampleRequest sampleRequestRaw 0 ''v6.example:3478'']"
    by (simp add: responses_testTCP_served [OF r] c)
  show ?thesis
    unfolding U T
    by (simp add: udpOutcome_eq tcpOutcome_eq tcpConnected_def udpReceived_def tcpReceived_def
        acceptedAddr_def resolveIPv6Only_def worldIPv6Only_def worldOK_def sampleRequest_def
        sampleResponse_def)
qed

text \<open>
  Claim C8, amended: testUDP resolves every endpoint with the network udp4, that is, to
  an IPv4 address only; testTCP resolves with the network tcp, which does not restrict the
  address family, every endpoint whose connection got past the dial and the read deadline.
  The server address of a record is what that call returned, and is unset when it failed.
\<close>

theorem resolution_networks:
  "(udpSetup e t = Some (req, raw) \<longrightarrow>
      filter isResolve (trace (snd (testUDP e t urls))) = map (ResolveUDPAddr ''udp4'') urls \<and>
      map STUNServerAddr (stunResponses (snd (testUDP e t urls))) =
        map (\<lambda>(i, u). case resolveUDPAddr e i ''udp4'' u of Inl err \<Rightarrow> None | Inr a \<Rightarrow> Some a)
          (enumerate 0 urls)) \<and>
   (request e = Some (req, raw) \<longrightarrow>
      filter isResolve (trace (snd (testTCP e t urls))) =
        map (\<lambda>(i, u). ResolveTCPAddr ''tcp'' u)
          (filter (\<lambda>(i, u). tcpConnected e t i u) (enumerate 0 urls)) \<and>
      map STUNServerAddr (stunResponses (snd (testTCP e t urls))) =
        map (\<lambda>(i, u). case resolveTCPAddr e i ''tcp'' u of Inl err \<Rightarrow> None | Inr a \<Rightarrow> Some a)
          (filter (\<lambda>(i, u). tcpConnected e t i u) (enumerate 0 urls)))"
proof (intro conjI impI)
  assume h: "udpSetup e t = Some (req, raw)"
  show "filter isResolve (trace (snd (testUDP e t urls))) = map (ResolveUDPAddr ''udp4'') urls"
    by (simp add: trace_testUDP [OF h] filter_concat_enumerate isResolve_udpEvents
        concat_map_enumerate_single map_snd_enumerate)
  show "map STUNServerAddr (stunResponses (snd (testUDP e t urls))) =
        map (\<lambda>(i, u). case resolveUDPAddr e i ''udp4'' u of Inl err \<Rightarrow> None | Inr a \<Rightarrow> Some a)
          (enumerate 0 urls)"
    by (simp add: responses_testUDP [OF h] udpOutcome_eq comp_def case_prod_unfold)
next
  assume r: "request e = Some (req, raw)"
  show "filter isResolve (trace (snd (testTCP e t urls))) =
        map (\<lambda>(i, u). ResolveTCPAddr ''tcp'' u)
          (filter (\<lambda>(i, u). tcpConnected e t i u) (enumerate 0 urls))"
    by (simp add: trace_testTCP [OF r] isResolve_tcp_segments)
  have "map (STUNServerAddr \<circ> (\<lambda>(i, u). tcpOutcome e t req raw i u))
          (filter (\<lambda>(i, u). tcpConnected e t i u) xs) =
        map (\<lambda>(i, u). case resolveTCPAddr e i ''tcp'' u of Inl err \<Rightarrow> None | Inr a \<Rightarrow> Some a)
          (filter (\<lambda>(i, u). tcpConnected e t i u) xs)" for xs
    by (induction xs) (auto simp add: tcpOutcome_eq)
  then show "map STUNServerAddr (stunResponses (snd (testTCP e t urls))) =
        map (\<lambda>(i, u). case resolveTCPAddr e i ''tcp'' u of Inl err \<Rightarrow> None | Inr a \<Rightarrow> Some a)
          (filter (\<lambda>(i, u). tcpConnected e t i u) (enumerate 0 urls))"
    by (simp add: responses_testTCP_served [OF r])
qed

text \<open>
  The amended claim at the endpoint that has only an IPv6 address.
\<close>

theorem resolution_networks_witness:
  "udpSetup worldIPv6Only mainTimeout = Some (sampleRequest, sampleRequestRaw) \<and>
   filter isResolve (trace (snd (testUDP worldIPv6Only mainTimeout [''v6.example:3478''])))
     = [ResolveUDPAddr ''udp4'' ''v6.example:3478''] \<and>
   map STUNServerAddr (stunResponses (snd (testUDP worldIPv6Only mainTimeout [''v6.example:3478''])))
     = [None] \<and>
   filter isResolve (trace (snd (testTCP worldIPv6Only mainTimeout [''v6.example:3478''])))
     = [ResolveTCPAddr ''tcp'' ''v6.example:3478''] \<and>
   map STUNServerAddr (stunResponses (snd (testTCP worldIPv6Only mainTimeout [''v6.example:3478''])))
     = [Some ''[2001:db8::10]:3478'']"
  using resolution_networks [where e = worldIPv6Only and t = mainTimeout
      and req = sampleRequest and raw = sampleRequestRaw and urls = "[''v6.example:3478'']"]
  by (simp add: udpSetup_def request_def tcpConnected_def resolveIPv6Only_def
      worldIPv6Only_def worldOK_def)

subsection \<open>C9: what the decoder is given\<close>

text \<open>
  Claim C9: for every probe on both transports, the STUN decoder is applied to the whole
  receive buffer of 2000 bytes, its zero-filled tail included, and not to the prefix of
  the bytes actually read; the byte count returned by the receive call is discarded.

  Every call of the decoder in a run, of either transport, has an argument of exactly 2000
  bytes: the bytes received for some server of the list, cut to 2000, followed by zeros up
  to 2000. The count returned by the receive is not a value of the model: nothing after
  the receive reads it.
\<close>

theorem decoder_gets_whole_buffer:
  "(\<forall>ev \<in> set (trace (snd (testUDP e t urls))). \<forall>b. ev = StunDecode b \<longrightarrow>
      length b = 2000 \<and>
      (\<exists>i<length urls. b = take 2000 (fst (readFrom e i)) @
                            replicate (2000 - length (fst (readFrom e i))) 0)) \<and>
   (\<forall>ev \<in> set (trace (snd (testTCP e t urls))). \<forall>b. ev = StunDecode b \<longrightarrow>
      length b = 2000 \<and>
      (\<exists>i<length urls. b = take 2000 (fst (tcpRead e i)) @
                            replicate (2000 - length (fst (tcpRead e i))) 0))"
proof (intro conjI ballI allI impI)
  fix ev b
  assume "ev \<in> set (trace (snd (testUDP e t urls)))" "ev = StunDecode b"
  then obtain req raw i u where iu: "(i, u) \<in> set (enumerate 0 urls)"
    and "StunDecode b \<in> set (udpEvents e req raw i u)"
    using decode_in_testUDP by blast
  then have b: "b = receiveInto (makeBuffer bufferSize) (fst (readFrom e i))"
    by (simp add: decode_in_udpEvents)
  show "length b = 2000"
    by (simp add: b bufferSize_def)
  from iu have "i < length urls"
    by (simp add: in_set_enumerate_eq)
  moreover have "b = take 2000 (fst (readFrom e i)) @
      replicate (2000 - length (fst (readFrom e i))) 0"
    by (simp add: b receiveInto_makeBuffer bufferSize_def)
  ultimately show "\<exists>i<length urls. b = take 2000 (fst (readFrom e i)) @
      replicate (2000 - length (fst (readFrom e i))) 0"
    by blast
next
  fix ev b
  assume "ev \<in> set (trace (snd (testTCP e t urls)))" "ev = StunDecode b"
  then obtain req raw i u where iu: "(i, u) \<in> set (enumerate 0 urls)"
    and "StunDecode b \<in> set (tcpEvents e t req raw i u)"
    using decode_in_testTCP by blast
  then have b: "b = receiveInto (makeBuffer bufferSize) (fst (tcpRead e i))"
    by (simp add: decode_in_tcpEvents)
  show "length b = 2000"
    by (simp add: b bufferSize_def)
  from iu have "i < length urls"
    by (simp add: in_set_enumerate_eq)
  moreover have "b = take 2000 (fst (tcpRead e i)) @
      replicate (2000 - length (fst (tcpRead e i))) 0"
    by (simp add: b receiveInto_makeBuffer bufferSize_def)
  ultimately show "\<exists>i<length urls. b = take 2000 (fst (tcpRead e i)) @
      replicate (2000 - length (fst (tcpRead e i))) 0"
    by blast
qed

text \<open>
  The claim at a server whose answer has 32 bytes: the decoder is given those 32 bytes
  followed by 1968 zeros, on both transports.
\<close>

theorem decoder_gets_whole_buffer_witness:
  "length sampleResponseRaw = 32 \<and>
   StunDecode (sampleResponseRaw @ replicate 1968 0) \<in>
     set (trace (snd (testUDP worldOK mainTimeout [''stun.example.com:3478'']))) \<and>
   StunDecode (sampleResponseRaw @ replicate 1968 0) \<in>
     set (trace (snd (testTCP worldOK mainTimeout [''stun.example.com:3478'']))) \<and>
   length (sampleResponseRaw @ replicate 1968 0) = 2000"
proof -
  have u: "udpSetup worldOK mainTimeout = Some (sampleRequest, sampleRequestRaw)"
    by (simp add: udpSetup_def request_def worldOK_def)
  have r: "request worldOK = Some (sampleRequest, sampleRequestRaw)"
    by (simp add: request_def worldOK_def)
  have "StunDecode (receiveInto (makeBuffer bufferSize) sampleResponseRaw) \<in>
      set (udpEvents worldOK sampleRequest sampleRequestRaw 0 ''stun.example.com:3478'')"
    by (simp add: udpEvents_eq checkEvents_eq worldOK_def)
  then have mu: "StunDecode (sampleResponseRaw @ replicate 1968 0) \<in>
      set (trace (snd (testUDP worldOK mainTimeout [''stun.example.com:3478''])))"
    by (simp add: trace_testUDP [OF u] sample_buffer)
  have "StunDecode (receiveInto (makeBuffer bufferSize) sampleResponseRaw) \<in>
      set (tcpEvents worldOK mainTimeout sampleRequest sampleRequestRaw 0 ''stun.example.com:3478'')"
    by (simp add: tcpEvents_eq checkEvents_eq worldOK_def)
  then have mt: "StunDecode (sampleResponseRaw @ replicate 1968 0) \<in>
      set (trace (snd (testTCP worldOK mainTimeout [''stun.example.com:3478''])))"
    by (simp add: trace_testTCP [OF r] sample_buffer)
  have "length (sampleResponseRaw @ replicate 1968 0) = 2000"
    using decoder_gets_whole_buffer [of worldOK mainTimeout "[''stun.example.com:3478'']"] mu
    by blast
  moreover have "length sampleResponseRaw = 32"
    by (simp add: sampleResponseRaw_def sampleID_def sampleAttributes_def)
  ultimately show ?thesis
    using mu mt by blast
qed

subsection \<open>C10: the source address of a datagram\<close>

text \<open>
  Claim C10: in the UDP run, the source address of a received datagram is discarded and
  never compared with the resolved address of the probed server, so a datagram arriving
  from any sender is processed as the answer of the current server.

  Replacing the source addresses that ReadFrom reports by any others changes nothing of a
  run of testUDP: not its error, its records, its calls or their order.
\<close>

theorem udp_source_address_ignored:
  "testUDP (withSender f e) t urls = testUDP e t urls"
  unfolding testUDP_def withSender_fields udpLoop_withSender by (rule refl)

text \<open>
  The claim at a world in which the server asked is 192.0.2.10:3478 and every datagram
  comes from 198.51.100.99:40000: the run is the one of the world in which the datagrams
  come from the server.
\<close>

theorem udp_source_address_ignored_witness:
  "withSender (\<lambda>i src. ''198.51.100.99:40000'') worldOK = worldOtherSender \<and>
   resolveUDPAddr worldOtherSender 0 ''udp4'' ''stun.example.com:3478'' = Inr ''192.0.2.10:3478'' \<and>
   fst (snd (readFrom worldOtherSender 0)) = ''198.51.100.99:40000'' \<and>
   testUDP worldOtherSender mainTimeout [''stun.example.com:3478''] =
     testUDP worldOK mainTimeout [''stun.example.com:3478'']"
proof -
  have w: "withSender (\<lambda>i src. ''198.51.100.99:40000'') worldOK = worldOtherSender"
    by (simp add: withSender_def worldOtherSender_def worldOK_def)
  have "testUDP (withSender (\<lambda>i src. ''198.51.100.99:40000'') worldOK) mainTimeout
          [''stun.example.com:3478''] =
        testUDP worldOK mainTimeout [''stun.example.com:3478'']"
    by (rule udp_source_address_ignored)
  then show ?thesis
    unfolding w by (simp add: worldOtherSender_def worldOK_def)
qed

end
